theory Spec2Isabelle
  imports Main "HOL-Library.Word" "HOL-Library.Signed_Division"
begin

unbundle bit_operations_syntax

section \<open>C integers of the firmware\<close>

text \<open>
  The target is a 32-bit Cortex-M: \<open>int\<close> and \<open>int32_t\<close> are 32 bits wide, two's
  complement. Arithmetic on \<open>int\<close> is modelled on \<open>32 word\<close> (so an overflow, which C
  leaves undefined, wraps around here); \<open>/\<close> and \<open>%\<close> truncate towards zero; \<open>>>\<close> on a
  signed operand is the arithmetic shift that GCC implements.
\<close>

type_synonym int32_t = "32 word"
type_synonym int16_t = "16 word"
type_synonym uint16_t = "16 word"
type_synonym uint8_t = "8 word"

definition c_div :: "int32_t \<Rightarrow> int32_t \<Rightarrow> int32_t" where
  "c_div a b = word_of_int (sint a sdiv sint b)"

definition c_mod :: "int32_t \<Rightarrow> int32_t \<Rightarrow> int32_t" where
  "c_mod a b = word_of_int (sint a smod sint b)"

text \<open>\<open>x & 0xFF\<close> on an \<open>int\<close>, stored into a \<open>uint8_t\<close>.\<close>

definition and_byte :: "int32_t \<Rightarrow> uint8_t" where
  "and_byte x = ucast (x AND 0xFF)"

text \<open>\<open>(x >> n) & 0xFF\<close> on an \<open>int\<close>, stored into a \<open>uint8_t\<close>.\<close>

definition shr_byte :: "int32_t \<Rightarrow> nat \<Rightarrow> uint8_t" where
  "shr_byte x n = ucast (signed_drop_bit n x AND 0xFF)"

text \<open>Integer promotion of an \<open>int16_t\<close> (sign extension) and of a \<open>uint16_t\<close> (zero extension).\<close>

definition promote_int16 :: "int16_t \<Rightarrow> int32_t" where
  "promote_int16 x = scast x"

definition promote_uint16 :: "uint16_t \<Rightarrow> int32_t" where
  "promote_uint16 x = ucast x"

section \<open>Sensor values and the collaborators of one poll cycle\<close>

text \<open>\<open>struct sensor_value\<close>: integer part and fractional part in millionths.\<close>

record sensor_value =
  val1 :: int32_t
  val2 :: int32_t

datatype sensor_channel =
    SENSOR_CHAN_AMBIENT_TEMP
  | SENSOR_CHAN_PRESS
  | SENSOR_CHAN_HUMIDITY
  | SENSOR_CHAN_GAS_RES
  | SENSOR_CHAN_IAQ
  | SENSOR_CHAN_CO2
  | SENSOR_CHAN_VOC

datatype k_timeout =
    K_NO_WAIT
  | K_MSEC_BT_GAP_ADV_SLOW_INT_MIN
  | K_SECONDS nat
  | K_MINUTES nat

datatype adv_data = Ad_temp_hum | Ad_press_gas | Ad_voc | Ad_combined

text \<open>
  What one run of a handler does to the outside world, in order: log lines, the
  advertising updates (with the service data bytes handed to the radio), sleeps and
  the scheduling of the delayable work item.
\<close>

datatype event =
    Log_fetch_failed
  | Log_invalid_values
  | Log_readings
  | Adv_update adv_data "uint8_t list"
  | Log_adv_failed adv_data
  | Sleep k_timeout
  | Work_schedule k_timeout

text \<open>
  The answers of the collaborators during one cycle: the return value of
  \<open>sensor_sample_fetch\<close>, the value that \<open>sensor_channel_get\<close> leaves in the local
  variable of each channel, and the return value of the advertising update of each
  advertising data set (\<open>bt_le_adv_update_data\<close>, \<open>bt_le_ext_adv_set_data\<close>).
\<close>

record cycle_env =
  sensor_sample_fetch :: int32_t
  sensor_channel_get :: "sensor_channel \<Rightarrow> sensor_value"
  bt_le_adv_update_data :: "adv_data \<Rightarrow> int32_t"

definition SENSOR_WORK_DELAY :: k_timeout where
  "SENSOR_WORK_DELAY = K_SECONDS 3"

section \<open>Fixed-point scaling, as written in the handlers\<close>

text \<open>\<open>int16_t temp_scaled = temp.val1 * 100 + temp.val2 / 10000;\<close>\<close>

definition temp_scaled :: "sensor_value \<Rightarrow> int16_t" where
  "temp_scaled temp = ucast (val1 temp * 100 + c_div (val2 temp) 10000)"

text \<open>\<open>int16_t humidity_scaled = humidity.val1 * 100 + humidity.val2 / 10000;\<close>\<close>

definition humidity_scaled :: "sensor_value \<Rightarrow> int16_t" where
  "humidity_scaled humidity = ucast (val1 humidity * 100 + c_div (val2 humidity) 10000)"

text \<open>\<open>int32_t pressure_scaled =
  (press.val1 / 100) * 100 + (press.val1 % 100 + press.val2 / 1000000) / 10;\<close>
  (both versions of sensor_handler.c)\<close>

definition pressure_scaled :: "sensor_value \<Rightarrow> int32_t" where
  "pressure_scaled press =
     c_div (val1 press) 100 * 100
     + c_div (c_mod (val1 press) 100 + c_div (val2 press) 1000000) 10"

text \<open>\<open>int32_t pressure_scaled = press.val1 * 1000 + press.val2 / 10000;\<close>
  (the polling loop of \<open>main\<close>)\<close>

definition main_pressure_scaled :: "sensor_value \<Rightarrow> int32_t" where
  "main_pressure_scaled press = val1 press * 1000 + c_div (val2 press) 10000"

text \<open>\<open>uint16_t voc_scaled = voc.val1 * 100 + voc.val2 / 10000;\<close>\<close>

definition voc_scaled :: "sensor_value \<Rightarrow> uint16_t" where
  "voc_scaled voc = ucast (val1 voc * 100 + c_div (val2 voc) 10000)"

text \<open>\<open>uint16_t co2_scaled = co2.val1 + (co2.val2 / 1000000);\<close>\<close>

definition co2_scaled :: "sensor_value \<Rightarrow> uint16_t" where
  "co2_scaled co2 = ucast (val1 co2 + c_div (val2 co2) 1000000)"


section \<open>sensor_handler.c, first version: three service data buffers\<close>

text \<open>
  Modelled from the spec: the Zephyr macro \<open>BT_UUID_16_ENCODE\<close> is not part of the
  sources; the wire format of section 6 puts the low byte of the service identifier
  first, then the high byte.
\<close>

definition BT_UUID_16_ENCODE :: "16 word \<Rightarrow> uint8_t list" where
  "BT_UUID_16_ENCODE w16 = [ucast (w16 AND 0xFF), ucast (drop_bit 8 w16 AND 0xFF)]"

definition SERVICE_UUID :: "16 word" where
  "SERVICE_UUID = 0xFCD2"

definition IDX_TEMPL :: nat where "IDX_TEMPL = 4"
definition IDX_TEMPH :: nat where "IDX_TEMPH = 5"
definition IDX_HUMIDL :: nat where "IDX_HUMIDL = 7"
definition IDX_HUMIDH :: nat where "IDX_HUMIDH = 8"
definition IDX_PRESS_LOW :: nat where "IDX_PRESS_LOW = 4"
definition IDX_PRESS_MID :: nat where "IDX_PRESS_MID = 5"
definition IDX_PRESS_HIGH :: nat where "IDX_PRESS_HIGH = 6"
definition IDX_VOC_LOW :: nat where "IDX_VOC_LOW = 4"
definition IDX_VOC_HIGH :: nat where "IDX_VOC_HIGH = 5"
definition IDX_CO2_HIGH :: nat where "IDX_CO2_HIGH = 7"
definition IDX_CO2_LOW :: nat where "IDX_CO2_LOW = 8"

record payloads =
  service_data_temp_hum :: "uint8_t list"
  service_data_press :: "uint8_t list"
  service_data_voc_co2 :: "uint8_t list"

text \<open>The static initialisers of the three arrays.\<close>

definition payloads_init :: payloads where
  "payloads_init =
     \<lparr> service_data_temp_hum =
         BT_UUID_16_ENCODE SERVICE_UUID @ [0x40, 0x02, 0x00, 0x00, 0x03, 0x00, 0x00],
       service_data_press =
         BT_UUID_16_ENCODE SERVICE_UUID @ [0x40, 0x04, 0x00, 0x00, 0x00],
       service_data_voc_co2 =
         BT_UUID_16_ENCODE SERVICE_UUID @ [0x40, 0x13, 0x00, 0x00, 0x12, 0x00, 0x00] \<rparr>"

text \<open>Lines 165 to 186: the stores into the three arrays, in source order.\<close>

definition update_payloads :: "(sensor_channel \<Rightarrow> sensor_value) \<Rightarrow> payloads \<Rightarrow> payloads" where
  "update_payloads get s =
     (let temp = get SENSOR_CHAN_AMBIENT_TEMP;
          press = get SENSOR_CHAN_PRESS;
          humidity = get SENSOR_CHAN_HUMIDITY;
          co2 = get SENSOR_CHAN_CO2;
          voc = get SENSOR_CHAN_VOC;
          th = service_data_temp_hum s;
          th = th[IDX_TEMPH := shr_byte (promote_int16 (temp_scaled temp)) 8];
          th = th[IDX_TEMPL := and_byte (promote_int16 (temp_scaled temp))];
          th = th[IDX_HUMIDH := shr_byte (promote_int16 (humidity_scaled humidity)) 8];
          th = th[IDX_HUMIDL := and_byte (promote_int16 (humidity_scaled humidity))];
          pr = service_data_press s;
          pr = pr[IDX_PRESS_LOW := and_byte (pressure_scaled press)];
          pr = pr[IDX_PRESS_MID := shr_byte (pressure_scaled press) 8];
          pr = pr[IDX_PRESS_HIGH := shr_byte (pressure_scaled press) 16];
          vc = service_data_voc_co2 s;
          vc = vc[IDX_VOC_LOW := and_byte (promote_uint16 (voc_scaled voc))];
          vc = vc[IDX_VOC_HIGH := shr_byte (promote_uint16 (voc_scaled voc)) 8];
          vc = vc[IDX_CO2_HIGH := shr_byte (promote_uint16 (co2_scaled co2)) 8];
          vc = vc[IDX_CO2_LOW := and_byte (promote_uint16 (co2_scaled co2))]
      in \<lparr> service_data_temp_hum = th, service_data_press = pr, service_data_voc_co2 = vc \<rparr>)"

text \<open>One advertising update: the call, and the message printed when it fails.\<close>

definition adv_update :: "cycle_env \<Rightarrow> adv_data \<Rightarrow> uint8_t list \<Rightarrow> event list" where
  "adv_update env ad bytes =
     Adv_update ad bytes # (if bt_le_adv_update_data env ad \<noteq> 0 then [Log_adv_failed ad] else [])"

text \<open>Lines 188 to 208: the three updates, with a sleep after the first and the second.\<close>

definition publish_payloads :: "cycle_env \<Rightarrow> payloads \<Rightarrow> event list" where
  "publish_payloads env s =
     adv_update env Ad_temp_hum (service_data_temp_hum s)
     @ [Sleep K_MSEC_BT_GAP_ADV_SLOW_INT_MIN]
     @ adv_update env Ad_press_gas (service_data_press s)
     @ [Sleep K_MSEC_BT_GAP_ADV_SLOW_INT_MIN]
     @ adv_update env Ad_voc (service_data_voc_co2 s)"

text \<open>
  \<open>sensor_work_handler\<close> of the first version. The branch taken when the fetch fails
  logs and schedules the work item, and control then continues with the statements
  after the \<open>if\<close>.
\<close>

definition sensor_work_handler_split :: "cycle_env \<Rightarrow> payloads \<Rightarrow> payloads \<times> event list" where
  "sensor_work_handler_split env s =
     (let err = sensor_sample_fetch env;
          tr = (if err \<noteq> 0 then [Log_fetch_failed, Work_schedule SENSOR_WORK_DELAY] else []);
          tr = tr @ [Log_readings];
          s = update_payloads (sensor_channel_get env) s;
          tr = tr @ publish_payloads env s;
          tr = tr @ [Work_schedule SENSOR_WORK_DELAY]
      in (s, tr))"

section \<open>sensor_handler.c, second version: one combined service data buffer\<close>

definition IDX_TEMP_L :: nat where "IDX_TEMP_L = 4"
definition IDX_TEMP_H :: nat where "IDX_TEMP_H = 5"
definition IDX_HUMID_L :: nat where "IDX_HUMID_L = 7"
definition IDX_HUMID_H :: nat where "IDX_HUMID_H = 8"
definition IDX_PRESS_L :: nat where "IDX_PRESS_L = 10"
definition IDX_PRESS_M :: nat where "IDX_PRESS_M = 11"
definition IDX_PRESS_H :: nat where "IDX_PRESS_H = 12"
definition IDX_VOC_L :: nat where "IDX_VOC_L = 14"
definition IDX_VOC_H :: nat where "IDX_VOC_H = 15"
definition IDX_CO2_L :: nat where "IDX_CO2_L = 17"
definition IDX_CO2_H :: nat where "IDX_CO2_H = 18"

text \<open>The static initialiser of \<open>service_data_combined[19]\<close>.\<close>

definition service_data_combined_init :: "uint8_t list" where
  "service_data_combined_init =
     BT_UUID_16_ENCODE SERVICE_UUID
     @ [0x40, 0x02, 0x00, 0x00, 0x03, 0x00, 0x00, 0x04, 0x00, 0x00, 0x00,
        0x13, 0x00, 0x00, 0x12, 0x00, 0x00]"

text \<open>Lines 389 to 413 of the listing: the stores into the combined array.\<close>

definition update_combined :: "(sensor_channel \<Rightarrow> sensor_value) \<Rightarrow> uint8_t list \<Rightarrow> uint8_t list" where
  "update_combined get service_data_combined =
     (let temp = get SENSOR_CHAN_AMBIENT_TEMP;
          press = get SENSOR_CHAN_PRESS;
          humidity = get SENSOR_CHAN_HUMIDITY;
          co2 = get SENSOR_CHAN_CO2;
          voc = get SENSOR_CHAN_VOC;
          b = service_data_combined;
          b = b[IDX_TEMP_H := shr_byte (promote_int16 (temp_scaled temp)) 8];
          b = b[IDX_TEMP_L := and_byte (promote_int16 (temp_scaled temp))];
          b = b[IDX_HUMID_H := shr_byte (promote_int16 (humidity_scaled humidity)) 8];
          b = b[IDX_HUMID_L := and_byte (promote_int16 (humidity_scaled humidity))];
          b = b[IDX_PRESS_L := and_byte (pressure_scaled press)];
          b = b[IDX_PRESS_M := shr_byte (pressure_scaled press) 8];
          b = b[IDX_PRESS_H := shr_byte (pressure_scaled press) 16];
          b = b[IDX_VOC_L := and_byte (promote_uint16 (voc_scaled voc))];
          b = b[IDX_VOC_H := shr_byte (promote_uint16 (voc_scaled voc)) 8];
          b = b[IDX_CO2_H := shr_byte (promote_uint16 (co2_scaled co2)) 8];
          b = b[IDX_CO2_L := and_byte (promote_uint16 (co2_scaled co2))]
      in b)"

text \<open>The plausibility check: \<open>iaq.val1 == 0 || co2.val1 < 0 || voc.val1 < 0\<close>.\<close>

definition invalid_values :: "(sensor_channel \<Rightarrow> sensor_value) \<Rightarrow> bool" where
  "invalid_values get \<longleftrightarrow>
     val1 (get SENSOR_CHAN_IAQ) = 0
     \<or> val1 (get SENSOR_CHAN_CO2) <s 0
     \<or> val1 (get SENSOR_CHAN_VOC) <s 0"

text \<open>
  \<open>sensor_work_handler\<close> of the second version: both error branches jump to the label
  \<open>reschedule\<close>.
\<close>

definition sensor_work_handler_combined ::
  "cycle_env \<Rightarrow> uint8_t list \<Rightarrow> uint8_t list \<times> event list" where
  "sensor_work_handler_combined env service_data_combined =
     (if sensor_sample_fetch env \<noteq> 0 then
        (service_data_combined, [Log_fetch_failed, Work_schedule SENSOR_WORK_DELAY])
      else if invalid_values (sensor_channel_get env) then
        (service_data_combined, [Log_invalid_values, Work_schedule SENSOR_WORK_DELAY])
      else
        (let b = update_combined (sensor_channel_get env) service_data_combined
         in (b, [Log_readings] @ adv_update env Ad_combined b
                @ [Work_schedule SENSOR_WORK_DELAY])))"

section \<open>The polling loop of main (two service data buffers)\<close>

record main_payloads =
  main_service_data_temp_hum :: "uint8_t list"
  main_service_data_press_gas :: "uint8_t list"

definition main_payloads_init :: main_payloads where
  "main_payloads_init =
     \<lparr> main_service_data_temp_hum =
         BT_UUID_16_ENCODE SERVICE_UUID @ [0x40, 0x02, 0xc4, 0x00, 0x03, 0xbf, 0x13],
       main_service_data_press_gas =
         BT_UUID_16_ENCODE SERVICE_UUID @ [0x40, 0x04, 0x13, 0x8A, 0x01] \<rparr>"

text \<open>
  One pass through the body of \<open>for (;;)\<close>. The return value of \<open>sensor_sample_fetch\<close>
  is not looked at.
\<close>

definition main_loop_body :: "cycle_env \<Rightarrow> main_payloads \<Rightarrow> main_payloads \<times> event list" where
  "main_loop_body env s =
     (let temp = sensor_channel_get env SENSOR_CHAN_AMBIENT_TEMP;
          press = sensor_channel_get env SENSOR_CHAN_PRESS;
          humidity = sensor_channel_get env SENSOR_CHAN_HUMIDITY;
          th = main_service_data_temp_hum s;
          th = th[IDX_TEMPH := shr_byte (promote_int16 (temp_scaled temp)) 8];
          th = th[IDX_TEMPL := and_byte (promote_int16 (temp_scaled temp))];
          th = th[IDX_HUMIDH := shr_byte (promote_int16 (humidity_scaled humidity)) 8];
          th = th[IDX_HUMIDL := and_byte (promote_int16 (humidity_scaled humidity))];
          pg = main_service_data_press_gas s;
          pg = pg[IDX_PRESS_LOW := and_byte (main_pressure_scaled press)];
          pg = pg[IDX_PRESS_MID := shr_byte (main_pressure_scaled press) 8];
          pg = pg[IDX_PRESS_HIGH := shr_byte (main_pressure_scaled press) 16]
      in (\<lparr> main_service_data_temp_hum = th, main_service_data_press_gas = pg \<rparr>,
          [Log_readings] @ adv_update env Ad_temp_hum th
          @ [Sleep K_MSEC_BT_GAP_ADV_SLOW_INT_MIN]
          @ adv_update env Ad_press_gas pg
          @ [Sleep (K_MINUTES 5)]))"

text \<open>
  The loop has no exit. \<open>main_loop n envs s\<close> is what its first \<open>n\<close> passes do, where
  \<open>envs k\<close> are the answers of the collaborators during pass \<open>k\<close>.
\<close>

fun main_loop :: "nat \<Rightarrow> (nat \<Rightarrow> cycle_env) \<Rightarrow> main_payloads \<Rightarrow> main_payloads \<times> event list" where
  "main_loop 0 envs s = (s, [])"
| "main_loop (Suc n) envs s =
     (let (s1, tr1) = main_loop_body (envs 0) s;
          (s2, tr2) = main_loop n (\<lambda>k. envs (Suc k)) s1
      in (s2, tr1 @ tr2))"

text \<open>
  The work queue runs the handler once per expiry of the scheduled delay; these are the
  successive runs, with the answers of the collaborators for each.
\<close>

fun run_split :: "cycle_env list \<Rightarrow> payloads \<Rightarrow> payloads" where
  "run_split [] s = s"
| "run_split (env # envs) s = run_split envs (fst (sensor_work_handler_split env s))"

fun run_combined :: "cycle_env list \<Rightarrow> uint8_t list \<Rightarrow> uint8_t list" where
  "run_combined [] b = b"
| "run_combined (env # envs) b = run_combined envs (fst (sensor_work_handler_combined env b))"

section \<open>The time exchange callbacks (app/time/src/main.c)\<close>

text \<open>
  Modelled from the spec: the declarations of \<open>struct rtc_time\<close> and of
  \<open>struct bt_cts_time_format\<close> are not part of the sources. Section 4.4 names the fields
  that the callbacks exchange; the clock's fields are C \<open>int\<close>, the wire format has a
  16-bit year and 8-bit fields otherwise. The field \<open>min\<close> of the wire format is
  called \<open>cts_min\<close> here.
\<close>

record rtc_time =
  tm_sec :: int32_t
  tm_min :: int32_t
  tm_hour :: int32_t
  tm_mday :: int32_t
  tm_mon :: int32_t
  tm_year :: int32_t
  tm_wday :: int32_t
  tm_yday :: int32_t
  tm_isdst :: int32_t
  tm_nsec :: int32_t

record bt_cts_time_format =
  year :: uint16_t
  mon :: uint8_t
  mday :: uint8_t
  hours :: uint8_t
  cts_min :: uint8_t
  sec :: uint8_t
  wday :: uint8_t
  fractions256 :: uint8_t
  reason :: uint8_t

text \<open>
  \<open>cts_time_write\<close>: the designated initialiser of the local \<open>tm\<close> (the fields it does
  not name are zero), then \<open>return rtc_set_time(rtc, &tm)\<close>. The driver is a parameter:
  it takes the state of the clock and the fields, and gives the new state and its
  return value.
\<close>

definition cts_time_write_tm :: "bt_cts_time_format \<Rightarrow> rtc_time" where
  "cts_time_write_tm cts_time =
     \<lparr> tm_sec = ucast (sec cts_time),
       tm_min = ucast (cts_min cts_time),
       tm_hour = ucast (hours cts_time),
       tm_mday = ucast (mday cts_time),
       tm_mon = ucast (mon cts_time) - 1,
       tm_year = ucast (year cts_time) - 1900,
       tm_wday = 0, tm_yday = 0, tm_isdst = 0, tm_nsec = 0 \<rparr>"

definition cts_time_write ::
  "('dev \<Rightarrow> rtc_time \<Rightarrow> 'dev \<times> int32_t) \<Rightarrow> 'dev \<Rightarrow> bt_cts_time_format \<Rightarrow> 'dev \<times> int32_t" where
  "cts_time_write rtc_set_time rtc cts_time = rtc_set_time rtc (cts_time_write_tm cts_time)"

text \<open>
  \<open>cts_time_read\<close>: on a negative return value of \<open>rtc_get_time\<close> the caller's struct is left
  as it was and the value is returned; otherwise seven fields are stored and 0 is returned.
\<close>

definition cts_time_read ::
  "('dev \<Rightarrow> rtc_time \<times> int32_t) \<Rightarrow> 'dev \<Rightarrow> bt_cts_time_format \<Rightarrow> bt_cts_time_format \<times> int32_t" where
  "cts_time_read rtc_get_time rtc cts_time =
     (let (tm, ret) = rtc_get_time rtc in
      if ret <s 0 then (cts_time, ret)
      else
        (cts_time
           \<lparr> year := ucast (tm_year tm + 1900),
             mon := ucast (tm_mon tm + 1),
             mday := ucast (tm_mday tm),
             hours := ucast (tm_hour tm),
             cts_min := ucast (tm_min tm),
             sec := ucast (tm_sec tm),
             wday := ucast (c_mod (tm_wday tm + 7) 7 + 1) \<rparr>, 0))"

section \<open>The scaling formulas on unbounded integers\<close>

text \<open>
  Section 4.1 of the specification gives each scaling as a formula on integers with
  truncating division; \<open>sdiv\<close> and \<open>smod\<close> are the division and remainder that truncate
  towards zero. The argument is the reading: \<open>sint (val1 v)\<close> is its integer part,
  \<open>sint (val2 v)\<close> its fractional part. \<open>centi_formula\<close> is the formula for temperature,
  humidity and VOC, \<open>pressure_formula\<close> the one for pressure, \<open>co2_formula\<close> the one for
  CO2; \<open>main_pressure_formula\<close> is the pressure expression of the loop of \<open>main\<close>, which
  the specification does not give, read on unbounded integers.
\<close>

definition centi_formula :: "sensor_value \<Rightarrow> int" where
  "centi_formula v = sint (val1 v) * 100 + sint (val2 v) sdiv 10000"

definition pressure_formula :: "sensor_value \<Rightarrow> int" where
  "pressure_formula v =
     (sint (val1 v) sdiv 100) * 100
     + (sint (val1 v) smod 100 + sint (val2 v) sdiv 1000000) sdiv 10"

definition main_pressure_formula :: "sensor_value \<Rightarrow> int" where
  "main_pressure_formula v = sint (val1 v) * 1000 + sint (val2 v) sdiv 10000"

definition co2_formula :: "sensor_value \<Rightarrow> int" where
  "co2_formula v = sint (val1 v) + sint (val2 v) sdiv 1000000"

text \<open>Byte \<open>n\<close> of an integer in two's complement: \<open>(k >> 8 * n) & 0xFF\<close>.\<close>

definition byte_of :: "int \<Rightarrow> nat \<Rightarrow> uint8_t" where
  "byte_of k n = word_of_int (drop_bit (8 * n) k AND 0xFF)"

text \<open>The two bytes at \<open>lo\<close> and \<open>hi\<close> are \<open>k & 0xFF\<close> and \<open>(k >> 8) & 0xFF\<close>.\<close>

definition bytes16_at :: "uint8_t list \<Rightarrow> nat \<Rightarrow> nat \<Rightarrow> int \<Rightarrow> bool" where
  "bytes16_at buf lo hi k \<longleftrightarrow>
     uint (buf ! lo) = k AND 0xFF \<and> uint (buf ! hi) = drop_bit 8 k AND 0xFF"

text \<open>The three bytes at \<open>lo\<close>, \<open>mid\<close> and \<open>hi\<close> are bytes 0, 1 and 2 of \<open>k\<close>.\<close>

definition bytes24_at :: "uint8_t list \<Rightarrow> nat \<Rightarrow> nat \<Rightarrow> nat \<Rightarrow> int \<Rightarrow> bool" where
  "bytes24_at buf lo mid hi k \<longleftrightarrow>
     uint (buf ! lo) = k AND 0xFF \<and> uint (buf ! mid) = drop_bit 8 k AND 0xFF
     \<and> uint (buf ! hi) = drop_bit 16 k AND 0xFF"

text \<open>The buffer keeps its length and every byte whose index is not in \<open>I\<close>.\<close>

definition untouched_outside :: "nat set \<Rightarrow> uint8_t list \<Rightarrow> uint8_t list \<Rightarrow> bool" where
  "untouched_outside I old new \<longleftrightarrow>
     length new = length old \<and> (\<forall>i \<in> {0..<length old} - I. new ! i = old ! i)"

section \<open>A concrete cycle\<close>

text \<open>
  The readings of the end-to-end example of section 8 of the specification, with an air
  quality index of 50, a fetch that succeeds and advertising updates that succeed.
\<close>

definition example_env :: cycle_env where
  "example_env =
     \<lparr> sensor_sample_fetch = 0,
       sensor_channel_get = (\<lambda>c. case c of
           SENSOR_CHAN_AMBIENT_TEMP \<Rightarrow> \<lparr>val1 = 22, val2 = 500000\<rparr>
         | SENSOR_CHAN_PRESS \<Rightarrow> \<lparr>val1 = 1013, val2 = 250000\<rparr>
         | SENSOR_CHAN_HUMIDITY \<Rightarrow> \<lparr>val1 = 55, val2 = 0\<rparr>
         | SENSOR_CHAN_GAS_RES \<Rightarrow> \<lparr>val1 = 0, val2 = 0\<rparr>
         | SENSOR_CHAN_IAQ \<Rightarrow> \<lparr>val1 = 50, val2 = 0\<rparr>
         | SENSOR_CHAN_CO2 \<Rightarrow> \<lparr>val1 = 450, val2 = 0\<rparr>
         | SENSOR_CHAN_VOC \<Rightarrow> \<lparr>val1 = 10, val2 = 0\<rparr>),
       bt_le_adv_update_data = (\<lambda>_. 0) \<rparr>"

text \<open>The same cycle with an air quality index of 0, the value the check rejects.\<close>

definition iaq_not_ready_env :: cycle_env where
  "iaq_not_ready_env =
     example_env\<lparr> sensor_channel_get :=
       (sensor_channel_get example_env)(SENSOR_CHAN_IAQ := \<lparr>val1 = 0, val2 = 0\<rparr>) \<rparr>"

text \<open>The same cycle with an air quality index of 100.\<close>

definition iaq_100_env :: cycle_env where
  "iaq_100_env =
     example_env\<lparr> sensor_channel_get :=
       (sensor_channel_get example_env)(SENSOR_CHAN_IAQ := \<lparr>val1 = 100, val2 = 0\<rparr>) \<rparr>"

text \<open>The same cycle with a fetch that fails with \<open>-EIO\<close>.\<close>

definition fetch_failed_env :: cycle_env where
  "fetch_failed_env = example_env\<lparr> sensor_sample_fetch := - 5 \<rparr>"

section \<open>A concrete time exchange\<close>

text \<open>Monday, 3 November 2025, 12:34:56, as a wire time value.\<close>

definition example_cts_time :: bt_cts_time_format where
  "example_cts_time =
     \<lparr> year = 2025, mon = 11, mday = 3, hours = 12, cts_min = 34, sec = 56, wday = 1,
       fractions256 = 0, reason = 0 \<rparr>"

text \<open>
  A clock that keeps the fields it is given. Read on a Monday it reports them with the
  weekday 1, read on a Sunday with the weekday 0.
\<close>

definition example_rtc_set_time :: "rtc_time \<Rightarrow> rtc_time \<Rightarrow> rtc_time \<times> int32_t" where
  "example_rtc_set_time rtc tm = (tm, 0)"

definition example_rtc_get_time :: "rtc_time \<Rightarrow> rtc_time \<times> int32_t" where
  "example_rtc_get_time rtc = (rtc\<lparr>tm_wday := 1\<rparr>, 0)"

definition sunday_rtc_get_time :: "rtc_time \<Rightarrow> rtc_time \<times> int32_t" where
  "sunday_rtc_get_time rtc = (rtc\<lparr>tm_wday := 0\<rparr>, 0)"

text \<open>The state of that clock before the write: Saturday, 1 January 2000, 00:00:00.\<close>

definition example_rtc_before :: rtc_time where
  "example_rtc_before =
     \<lparr> tm_sec = 0, tm_min = 0, tm_hour = 0, tm_mday = 1, tm_mon = 0, tm_year = 100,
       tm_wday = 6, tm_yday = 0, tm_isdst = 0, tm_nsec = 0 \<rparr>"

section \<open>Bytes of the C expressions\<close>

lemmas idx_split_defs =
  IDX_TEMPL_def IDX_TEMPH_def IDX_HUMIDL_def IDX_HUMIDH_def
  IDX_PRESS_LOW_def IDX_PRESS_MID_def IDX_PRESS_HIGH_def
  IDX_VOC_LOW_def IDX_VOC_HIGH_def IDX_CO2_HIGH_def IDX_CO2_LOW_def

lemmas idx_combined_defs =
  IDX_TEMP_L_def IDX_TEMP_H_def IDX_HUMID_L_def IDX_HUMID_H_def
  IDX_PRESS_L_def IDX_PRESS_M_def IDX_PRESS_H_def
  IDX_VOC_L_def IDX_VOC_H_def IDX_CO2_L_def IDX_CO2_H_def

lemma byte_mask: "(0xFF :: 32 word) = mask 8"
  by (simp add: mask_eq_exp_minus_1)

lemma int_byte_mask: "(0xFF :: int) = mask 8"
  by (simp add: mask_eq_exp_minus_1)

lemma uint_byte_of: "uint (byte_of k n) = drop_bit (8 * n) k AND 0xFF"
  unfolding byte_of_def int_byte_mask
  by (simp add: uint_word_of_int_eq take_bit_eq_mask)

lemma and_byte_of_int: "and_byte (word_of_int k) = byte_of k 0"
  unfolding and_byte_def byte_mask byte_of_def int_byte_mask
  by (rule bit_word_eqI) (auto simp: bit_simps)

lemma shr_byte_of_int: "n \<le> 3 \<Longrightarrow> shr_byte (word_of_int k) (8 * n) = byte_of k n"
  unfolding shr_byte_def byte_mask byte_of_def int_byte_mask
  by (rule bit_word_eqI) (auto simp: bit_simps)

lemma shr_byte_of_int_8: "shr_byte (word_of_int k) 8 = byte_of k 1"
  using shr_byte_of_int [of 1 k] by simp

lemma shr_byte_of_int_16: "shr_byte (word_of_int k) 16 = byte_of k 2"
  using shr_byte_of_int [of 2 k] by simp

lemma and_byte_int16:
  "and_byte (promote_int16 (ucast (word_of_int k :: 32 word))) = byte_of k 0"
  unfolding and_byte_def byte_mask promote_int16_def byte_of_def int_byte_mask
  by (rule bit_word_eqI) (auto simp: bit_simps)

lemma shr_byte_int16:
  "shr_byte (promote_int16 (ucast (word_of_int k :: 32 word))) 8 = byte_of k 1"
  unfolding shr_byte_def byte_mask promote_int16_def byte_of_def int_byte_mask
  by (rule bit_word_eqI) (auto simp: bit_simps)

lemma and_byte_uint16:
  "and_byte (promote_uint16 (ucast (word_of_int k :: 32 word))) = byte_of k 0"
  unfolding and_byte_def byte_mask promote_uint16_def byte_of_def int_byte_mask
  by (rule bit_word_eqI) (auto simp: bit_simps)

lemma shr_byte_uint16:
  "shr_byte (promote_uint16 (ucast (word_of_int k :: 32 word))) 8 = byte_of k 1"
  unfolding shr_byte_def byte_mask promote_uint16_def byte_of_def int_byte_mask
  by (rule bit_word_eqI) (auto simp: bit_simps)

lemma centi_word: "val1 v * 100 + c_div (val2 v) 10000 = word_of_int (centi_formula v)"
  by (simp add: c_div_def centi_formula_def)

lemma co2_word: "val1 v + c_div (val2 v) 1000000 = word_of_int (co2_formula v)"
  by (simp add: c_div_def co2_formula_def)

lemma main_pressure_word: "main_pressure_scaled v = word_of_int (main_pressure_formula v)"
  by (simp add: c_div_def main_pressure_formula_def main_pressure_scaled_def)

lemma sdiv_million_bound: "\<bar>(a::int) sdiv 1000000\<bar> \<le> \<bar>a\<bar> div 1000000"
  by (simp add: signed_divide_int_def abs_mult abs_sgn_eq)

lemma smod_hundred_bound: "\<bar>(a::int) smod 100\<bar> < 100"
  by (simp add: signed_modulo_int_def abs_mult abs_sgn_eq)

text \<open>The inner sum of the pressure expression cannot overflow.\<close>

lemma pressure_inner:
  "sint (c_mod a 100 + c_div f 1000000) = sint a smod 100 + sint f sdiv 1000000"
proof -
  have "\<bar>sint f\<bar> \<le> 2 ^ 31"
    using sint_ge [of f] sint_lt [of f] by (simp add: abs_le_iff)
  hence "\<bar>sint f\<bar> div 1000000 \<le> 2147" by simp
  hence "\<bar>sint f sdiv 1000000\<bar> \<le> 2147"
    using sdiv_million_bound [of "sint f"] by linarith
  moreover have "\<bar>sint a smod 100\<bar> < 100" by (rule smod_hundred_bound)
  ultimately have r: "- 2147483648 \<le> sint a smod 100 + sint f sdiv 1000000"
     "sint a smod 100 + sint f sdiv 1000000 < 2147483648" by simp_all
  have "c_mod a 100 + c_div f 1000000 = word_of_int (sint a smod 100 + sint f sdiv 1000000)"
    by (simp add: c_mod_def c_div_def)
  hence "sint (c_mod a 100 + c_div f 1000000)
         = signed_take_bit 31 (sint a smod 100 + sint f sdiv 1000000)"
    by (simp only: sint_sbintrunc') simp
  thus ?thesis using r by (simp add: signed_take_bit_int_eq_self)
qed

lemma pressure_word: "pressure_scaled v = word_of_int (pressure_formula v)"
  unfolding pressure_scaled_def pressure_formula_def
  by (simp add: c_div_def [of "c_mod _ _ + _"] pressure_inner) (simp add: c_div_def)

section \<open>What the stores of each design write\<close>

lemma update_payloads_eq:
  "update_payloads get s =
     \<lparr> service_data_temp_hum = (service_data_temp_hum s)
         [IDX_TEMPH := byte_of (centi_formula (get SENSOR_CHAN_AMBIENT_TEMP)) 1,
          IDX_TEMPL := byte_of (centi_formula (get SENSOR_CHAN_AMBIENT_TEMP)) 0,
          IDX_HUMIDH := byte_of (centi_formula (get SENSOR_CHAN_HUMIDITY)) 1,
          IDX_HUMIDL := byte_of (centi_formula (get SENSOR_CHAN_HUMIDITY)) 0],
       service_data_press = (service_data_press s)
         [IDX_PRESS_LOW := byte_of (pressure_formula (get SENSOR_CHAN_PRESS)) 0,
          IDX_PRESS_MID := byte_of (pressure_formula (get SENSOR_CHAN_PRESS)) 1,
          IDX_PRESS_HIGH := byte_of (pressure_formula (get SENSOR_CHAN_PRESS)) 2],
       service_data_voc_co2 = (service_data_voc_co2 s)
         [IDX_VOC_LOW := byte_of (centi_formula (get SENSOR_CHAN_VOC)) 0,
          IDX_VOC_HIGH := byte_of (centi_formula (get SENSOR_CHAN_VOC)) 1,
          IDX_CO2_HIGH := byte_of (co2_formula (get SENSOR_CHAN_CO2)) 1,
          IDX_CO2_LOW := byte_of (co2_formula (get SENSOR_CHAN_CO2)) 0] \<rparr>"
  unfolding update_payloads_def Let_def temp_scaled_def humidity_scaled_def voc_scaled_def
    co2_scaled_def centi_word co2_word pressure_word
    and_byte_int16 shr_byte_int16 and_byte_uint16 shr_byte_uint16
    and_byte_of_int shr_byte_of_int_8 shr_byte_of_int_16
  by (rule refl)

lemma update_combined_eq:
  "update_combined get b = b
     [IDX_TEMP_H := byte_of (centi_formula (get SENSOR_CHAN_AMBIENT_TEMP)) 1,
      IDX_TEMP_L := byte_of (centi_formula (get SENSOR_CHAN_AMBIENT_TEMP)) 0,
      IDX_HUMID_H := byte_of (centi_formula (get SENSOR_CHAN_HUMIDITY)) 1,
      IDX_HUMID_L := byte_of (centi_formula (get SENSOR_CHAN_HUMIDITY)) 0,
      IDX_PRESS_L := byte_of (pressure_formula (get SENSOR_CHAN_PRESS)) 0,
      IDX_PRESS_M := byte_of (pressure_formula (get SENSOR_CHAN_PRESS)) 1,
      IDX_PRESS_H := byte_of (pressure_formula (get SENSOR_CHAN_PRESS)) 2,
      IDX_VOC_L := byte_of (centi_formula (get SENSOR_CHAN_VOC)) 0,
      IDX_VOC_H := byte_of (centi_formula (get SENSOR_CHAN_VOC)) 1,
      IDX_CO2_H := byte_of (co2_formula (get SENSOR_CHAN_CO2)) 1,
      IDX_CO2_L := byte_of (co2_formula (get SENSOR_CHAN_CO2)) 0]"
  unfolding update_combined_def Let_def temp_scaled_def humidity_scaled_def voc_scaled_def
    co2_scaled_def centi_word co2_word pressure_word
    and_byte_int16 shr_byte_int16 and_byte_uint16 shr_byte_uint16
    and_byte_of_int shr_byte_of_int_8 shr_byte_of_int_16
  by (rule refl)

lemma main_loop_body_state:
  "fst (main_loop_body env s) =
     \<lparr> main_service_data_temp_hum = (main_service_data_temp_hum s)
         [IDX_TEMPH := byte_of (centi_formula (sensor_channel_get env SENSOR_CHAN_AMBIENT_TEMP)) 1,
          IDX_TEMPL := byte_of (centi_formula (sensor_channel_get env SENSOR_CHAN_AMBIENT_TEMP)) 0,
          IDX_HUMIDH := byte_of (centi_formula (sensor_channel_get env SENSOR_CHAN_HUMIDITY)) 1,
          IDX_HUMIDL := byte_of (centi_formula (sensor_channel_get env SENSOR_CHAN_HUMIDITY)) 0],
       main_service_data_press_gas = (main_service_data_press_gas s)
         [IDX_PRESS_LOW := byte_of (main_pressure_formula (sensor_channel_get env SENSOR_CHAN_PRESS)) 0,
          IDX_PRESS_MID := byte_of (main_pressure_formula (sensor_channel_get env SENSOR_CHAN_PRESS)) 1,
          IDX_PRESS_HIGH := byte_of (main_pressure_formula (sensor_channel_get env SENSOR_CHAN_PRESS)) 2] \<rparr>"
  unfolding main_loop_body_def Let_def temp_scaled_def humidity_scaled_def
    centi_word main_pressure_word fst_conv
    and_byte_int16 shr_byte_int16 
    and_byte_of_int shr_byte_of_int_8 shr_byte_of_int_16
  by (rule refl)

lemma sint_scaled16:
  "- 32768 \<le> k \<Longrightarrow> k < 32768 \<Longrightarrow> sint (ucast (word_of_int k :: 32 word) :: 16 word) = k"
proof -
  assume r: "- 32768 \<le> k" "k < 32768"
  have "(ucast (word_of_int k :: 32 word) :: 16 word) = word_of_int k"
    by (rule bit_word_eqI) (auto simp: bit_simps)
  hence "sint (ucast (word_of_int k :: 32 word) :: 16 word) = signed_take_bit 15 k"
    by (simp only: sint_sbintrunc') simp
  thus ?thesis using r by (simp add: signed_take_bit_int_eq_self)
qed

lemma uint_scaled16_mod:
  "uint (ucast (word_of_int k :: 32 word) :: 16 word) = k mod 65536"
proof -
  have "(ucast (word_of_int k :: 32 word) :: 16 word) = word_of_int k"
    by (rule bit_word_eqI) (auto simp: bit_simps)
  hence "uint (ucast (word_of_int k :: 32 word) :: 16 word) = take_bit 16 k"
    by (simp only: uint_word_of_int_eq) simp
  thus ?thesis by (simp add: take_bit_eq_mod)
qed

lemma uint_scaled16:
  "0 \<le> k \<Longrightarrow> k < 65536 \<Longrightarrow> uint (ucast (word_of_int k :: 32 word) :: 16 word) = k"
  by (simp add: uint_scaled16_mod)

lemma split_state: "fst (sensor_work_handler_split env s) = update_payloads (sensor_channel_get env) s"
  by (simp add: sensor_work_handler_split_def Let_def)

lemma combined_state:
  "sensor_sample_fetch env = 0 \<Longrightarrow> \<not> invalid_values (sensor_channel_get env) \<Longrightarrow>
   fst (sensor_work_handler_combined env b) = update_combined (sensor_channel_get env) b"
  by (simp add: sensor_work_handler_combined_def Let_def)

lemma example_env_simps:
  "sensor_sample_fetch example_env = 0"
  "sensor_channel_get example_env SENSOR_CHAN_AMBIENT_TEMP = \<lparr>val1 = 22, val2 = 500000\<rparr>"
  "sensor_channel_get example_env SENSOR_CHAN_PRESS = \<lparr>val1 = 1013, val2 = 250000\<rparr>"
  "sensor_channel_get example_env SENSOR_CHAN_HUMIDITY = \<lparr>val1 = 55, val2 = 0\<rparr>"
  "sensor_channel_get example_env SENSOR_CHAN_IAQ = \<lparr>val1 = 50, val2 = 0\<rparr>"
  "sensor_channel_get example_env SENSOR_CHAN_CO2 = \<lparr>val1 = 450, val2 = 0\<rparr>"
  "sensor_channel_get example_env SENSOR_CHAN_VOC = \<lparr>val1 = 10, val2 = 0\<rparr>"
  "bt_le_adv_update_data example_env ad = 0"
  by (simp_all add: example_env_def)

lemma example_env_valid: "\<not> invalid_values (sensor_channel_get example_env)"
  by (simp add: invalid_values_def example_env_simps word_sless_alt)

lemma init_lengths:
  "length (service_data_temp_hum payloads_init) = 9"
  "length (service_data_press payloads_init) = 7"
  "length (service_data_voc_co2 payloads_init) = 9"
  "length service_data_combined_init = 19"
  "length (main_service_data_temp_hum main_payloads_init) = 9"
  "length (main_service_data_press_gas main_payloads_init) = 7"
  by (simp_all add: payloads_init_def service_data_combined_init_def main_payloads_init_def
      BT_UUID_16_ENCODE_def)

lemma example_formulas:
  "centi_formula \<lparr>val1 = 22, val2 = 500000\<rparr> = 2250"
  "centi_formula \<lparr>val1 = 55, val2 = 0\<rparr> = 5500"
  "centi_formula \<lparr>val1 = 10, val2 = 0\<rparr> = 1000"
  "pressure_formula \<lparr>val1 = 1013, val2 = 250000\<rparr> = 1001"
  "main_pressure_formula \<lparr>val1 = 1013, val2 = 250000\<rparr> = 1013025"
  "co2_formula \<lparr>val1 = 450, val2 = 0\<rparr> = 450"
  by (simp_all add: centi_formula_def pressure_formula_def main_pressure_formula_def
      co2_formula_def signed_divide_int_def signed_modulo_int_def)

section \<open>Claims about the fixed-point encoders\<close>

text \<open>
  C1. For every reading, in each of the three designs, the temperature, humidity and VOC
  encoders write the value \<open>scaled = int_part * 100 + frac / 10000\<close> (division truncating
  towards zero; for \<open>0 \<le> frac\<close> it is the quotient rounded down) into two bytes: the byte
  at the low index is \<open>scaled & 0xFF\<close>, the byte at the high index is
  \<open>(scaled >> 8) & 0xFF\<close>, and no other byte of the buffer changes apart from the bytes
  of the other fields of the same buffer. In the combined design the stores happen in the
  cycles whose fetch succeeded and whose readings passed the plausibility check. Read as a
  signed 16-bit number the temperature field is \<open>scaled\<close> whenever \<open>scaled\<close> fits 16 signed
  bits; read as unsigned 16-bit numbers the humidity and VOC fields are \<open>scaled\<close> whenever
  it fits 16 unsigned bits.
\<close>

theorem centi_encoders_bytes:
  assumes "length (service_data_temp_hum s) = 9" and "length (service_data_voc_co2 s) = 9"
    and "length b = 19" and "length (main_service_data_temp_hum m) = 9"
  shows
    "(let temp = sensor_channel_get env SENSOR_CHAN_AMBIENT_TEMP;
          humidity = sensor_channel_get env SENSOR_CHAN_HUMIDITY;
          voc = sensor_channel_get env SENSOR_CHAN_VOC;
          s' = fst (sensor_work_handler_split env s);
          b' = fst (sensor_work_handler_combined env b);
          m' = fst (main_loop_body env m)
      in bytes16_at (service_data_temp_hum s') IDX_TEMPL IDX_TEMPH (centi_formula temp)
       \<and> bytes16_at (service_data_temp_hum s') IDX_HUMIDL IDX_HUMIDH (centi_formula humidity)
       \<and> untouched_outside {IDX_TEMPL, IDX_TEMPH, IDX_HUMIDL, IDX_HUMIDH}
            (service_data_temp_hum s) (service_data_temp_hum s')
       \<and> bytes16_at (service_data_voc_co2 s') IDX_VOC_LOW IDX_VOC_HIGH (centi_formula voc)
       \<and> untouched_outside {IDX_VOC_LOW, IDX_VOC_HIGH, IDX_CO2_LOW, IDX_CO2_HIGH}
            (service_data_voc_co2 s) (service_data_voc_co2 s')
       \<and> (sensor_sample_fetch env = 0 \<and> \<not> invalid_values (sensor_channel_get env) \<longrightarrow>
            bytes16_at b' IDX_TEMP_L IDX_TEMP_H (centi_formula temp)
          \<and> bytes16_at b' IDX_HUMID_L IDX_HUMID_H (centi_formula humidity)
          \<and> bytes16_at b' IDX_VOC_L IDX_VOC_H (centi_formula voc)
          \<and> untouched_outside
               {IDX_TEMP_L, IDX_TEMP_H, IDX_HUMID_L, IDX_HUMID_H, IDX_VOC_L, IDX_VOC_H,
                IDX_PRESS_L, IDX_PRESS_M, IDX_PRESS_H, IDX_CO2_L, IDX_CO2_H} b b')
       \<and> bytes16_at (main_service_data_temp_hum m') IDX_TEMPL IDX_TEMPH (centi_formula temp)
       \<and> bytes16_at (main_service_data_temp_hum m') IDX_HUMIDL IDX_HUMIDH (centi_formula humidity)
       \<and> untouched_outside {IDX_TEMPL, IDX_TEMPH, IDX_HUMIDL, IDX_HUMIDH}
            (main_service_data_temp_hum m) (main_service_data_temp_hum m')
       \<and> (- 32768 \<le> centi_formula temp \<and> centi_formula temp < 32768 \<longrightarrow>
            sint (temp_scaled temp) = centi_formula temp)
       \<and> (0 \<le> centi_formula humidity \<and> centi_formula humidity < 65536 \<longrightarrow>
            uint (humidity_scaled humidity) = centi_formula humidity)
       \<and> (0 \<le> centi_formula voc \<and> centi_formula voc < 65536 \<longrightarrow>
            uint (voc_scaled voc) = centi_formula voc))"
  using assms
  unfolding Let_def split_state main_loop_body_state update_payloads_eq
  by (simp add: combined_state update_combined_eq bytes16_at_def untouched_outside_def
      uint_byte_of
      idx_split_defs idx_combined_defs temp_scaled_def humidity_scaled_def voc_scaled_def
      centi_word sint_scaled16 uint_scaled16)

theorem centi_encoders_bytes_witness:
  "length (service_data_temp_hum payloads_init) = 9
   \<and> length (service_data_voc_co2 payloads_init) = 9
   \<and> length service_data_combined_init = 19
   \<and> length (main_service_data_temp_hum main_payloads_init) = 9
   \<and> sensor_sample_fetch example_env = 0
   \<and> \<not> invalid_values (sensor_channel_get example_env)
   \<and> bytes16_at (service_data_temp_hum (fst (sensor_work_handler_split example_env payloads_init)))
        IDX_TEMPL IDX_TEMPH 2250
   \<and> bytes16_at (service_data_voc_co2 (fst (sensor_work_handler_split example_env payloads_init)))
        IDX_VOC_LOW IDX_VOC_HIGH 1000
   \<and> bytes16_at (fst (sensor_work_handler_combined example_env service_data_combined_init))
        IDX_HUMID_L IDX_HUMID_H 5500
   \<and> bytes16_at (main_service_data_temp_hum (fst (main_loop_body example_env main_payloads_init)))
        IDX_TEMPL IDX_TEMPH 2250
   \<and> sint (temp_scaled \<lparr>val1 = 22, val2 = 500000\<rparr>) = 2250
   \<and> uint (humidity_scaled \<lparr>val1 = 55, val2 = 0\<rparr>) = 5500
   \<and> uint (voc_scaled \<lparr>val1 = 10, val2 = 0\<rparr>) = 1000"
  using centi_encoders_bytes [of payloads_init service_data_combined_init main_payloads_init
      example_env, OF init_lengths(1) init_lengths(3) init_lengths(4) init_lengths(5)]
  by (simp add: Let_def init_lengths example_env_simps example_env_valid example_formulas)

text \<open>
  C2, as stated, fails in the polling loop of \<open>main\<close>: for the pressure reading
  (1013, 250000) the three bytes it stores are not the bytes of
  \<open>(i/100)*100 + ((i%100) + f/1000000)/10 = 1001\<close>; the loop stores the bytes of
  \<open>i*1000 + f/10000 = 1013025\<close>.
\<close>

theorem pressure_formula_main_loop_counterexample:
  "\<not> bytes24_at (main_service_data_press_gas (fst (main_loop_body example_env main_payloads_init)))
       IDX_PRESS_LOW IDX_PRESS_MID IDX_PRESS_HIGH
       (pressure_formula (sensor_channel_get example_env SENSOR_CHAN_PRESS))"
  unfolding main_loop_body_state
  by (simp add: bytes24_at_def example_env_simps example_formulas uint_byte_of
      main_payloads_init_def BT_UUID_16_ENCODE_def idx_split_defs)

text \<open>
  C2, amended. For every pressure reading \<open>(i, f)\<close> both versions of
  \<open>sensor_work_handler\<close> store the three bytes of
  \<open>scaled = (i/100)*100 + ((i%100) + f/1000000)/10\<close>, with these truncating operations
  in this order, and the polling loop of \<open>main\<close> stores the three bytes of
  \<open>scaled = i*1000 + f/10000\<close>; in each design the byte at the low index is
  \<open>scaled & 0xFF\<close>, the middle one \<open>(scaled >> 8) & 0xFF\<close> and the high one
  \<open>(scaled >> 16) & 0xFF\<close>, and the other bytes of a buffer that holds only the
  pressure keep their values.
\<close>

theorem pressure_encoders_bytes:
  assumes "length (service_data_press s) = 7" and "length b = 19"
    and "length (main_service_data_press_gas m) = 7"
  shows
    "(let press = sensor_channel_get env SENSOR_CHAN_PRESS;
          s' = fst (sensor_work_handler_split env s);
          b' = fst (sensor_work_handler_combined env b);
          m' = fst (main_loop_body env m)
      in bytes24_at (service_data_press s') IDX_PRESS_LOW IDX_PRESS_MID IDX_PRESS_HIGH
           (pressure_formula press)
       \<and> untouched_outside {IDX_PRESS_LOW, IDX_PRESS_MID, IDX_PRESS_HIGH}
            (service_data_press s) (service_data_press s')
       \<and> (sensor_sample_fetch env = 0 \<and> \<not> invalid_values (sensor_channel_get env) \<longrightarrow>
            bytes24_at b' IDX_PRESS_L IDX_PRESS_M IDX_PRESS_H (pressure_formula press))
       \<and> bytes24_at (main_service_data_press_gas m') IDX_PRESS_LOW IDX_PRESS_MID IDX_PRESS_HIGH
           (main_pressure_formula press)
       \<and> untouched_outside {IDX_PRESS_LOW, IDX_PRESS_MID, IDX_PRESS_HIGH}
            (main_service_data_press_gas m) (main_service_data_press_gas m'))"
  using assms
  unfolding Let_def split_state main_loop_body_state update_payloads_eq
  by (simp add: combined_state update_combined_eq bytes24_at_def untouched_outside_def
      uint_byte_of idx_split_defs idx_combined_defs)

theorem pressure_encoders_bytes_witness:
  "length (service_data_press payloads_init) = 7
   \<and> length service_data_combined_init = 19
   \<and> length (main_service_data_press_gas main_payloads_init) = 7
   \<and> sensor_sample_fetch example_env = 0
   \<and> \<not> invalid_values (sensor_channel_get example_env)
   \<and> bytes24_at (service_data_press (fst (sensor_work_handler_split example_env payloads_init)))
        IDX_PRESS_LOW IDX_PRESS_MID IDX_PRESS_HIGH 1001
   \<and> bytes24_at (fst (sensor_work_handler_combined example_env service_data_combined_init))
        IDX_PRESS_L IDX_PRESS_M IDX_PRESS_H 1001
   \<and> bytes24_at (main_service_data_press_gas (fst (main_loop_body example_env main_payloads_init)))
        IDX_PRESS_LOW IDX_PRESS_MID IDX_PRESS_HIGH 1013025"
  using pressure_encoders_bytes [of payloads_init service_data_combined_init main_payloads_init
      example_env, OF init_lengths(2) init_lengths(4) init_lengths(6)]
  by (simp add: Let_def init_lengths example_env_simps example_env_valid example_formulas)

lemma sdiv_million_zero: "0 \<le> (f::int) \<Longrightarrow> f < 1000000 \<Longrightarrow> f sdiv 1000000 = 0"
  by (simp add: signed_divide_int_def)

lemma co2_scaled_word: "co2_scaled v = ucast (word_of_int (co2_formula v) :: 32 word)"
  by (simp only: co2_scaled_def co2_word)

text \<open>
  C4, as stated, fails for an integer part that does not fit 16 unsigned bits: for the
  reading (70000, 0) the variable \<open>co2_scaled\<close> holds 4464.
\<close>

theorem co2_scaled_overflow_counterexample:
  "sint (val1 \<lparr>val1 = 70000 :: int32_t, val2 = 0 :: int32_t\<rparr>) = 70000
   \<and> sint (val2 \<lparr>val1 = 70000 :: int32_t, val2 = 0 :: int32_t\<rparr>) = 0
   \<and> uint (co2_scaled \<lparr>val1 = 70000, val2 = 0\<rparr>) = 4464
   \<and> uint (co2_scaled \<lparr>val1 = 70000, val2 = 0\<rparr>)
       \<noteq> sint (val1 \<lparr>val1 = 70000 :: int32_t, val2 = 0 :: int32_t\<rparr>)"
  by (simp add: co2_scaled_word uint_scaled16_mod co2_formula_def)

text \<open>
  C4, amended. For every CO2 reading with \<open>0 \<le> frac < 1000000\<close> the quotient
  \<open>frac / 1000000\<close> is 0, so the expression \<open>int_part + frac / 1000000\<close> equals
  \<open>int_part\<close>; the 16-bit variable \<open>co2_scaled\<close> holds \<open>int_part\<close> modulo 65536, which is
  \<open>int_part\<close> itself whenever \<open>0 \<le> int_part < 65536\<close>, and it is the same as for the
  reading with the fractional part 0.
\<close>

theorem co2_scaled_int_part:
  assumes "0 \<le> sint (val2 co2)" and "sint (val2 co2) < 1000000"
  shows "co2_formula co2 = sint (val1 co2)
       \<and> uint (co2_scaled co2) = sint (val1 co2) mod 65536
       \<and> (0 \<le> sint (val1 co2) \<and> sint (val1 co2) < 65536 \<longrightarrow>
            uint (co2_scaled co2) = sint (val1 co2))
       \<and> co2_scaled (co2\<lparr>val2 := 0\<rparr>) = co2_scaled co2"
proof -
  have f: "co2_formula co2 = sint (val1 co2)"
    using assms by (simp add: co2_formula_def sdiv_million_zero)
  have z: "co2_formula (co2\<lparr>val2 := 0\<rparr>) = sint (val1 co2)"
    by (simp add: co2_formula_def)
  have u: "uint (co2_scaled co2) = sint (val1 co2) mod 65536"
    by (simp only: co2_scaled_word f uint_scaled16_mod)
  have e: "co2_scaled (co2\<lparr>val2 := 0\<rparr>) = co2_scaled co2"
    by (simp only: co2_scaled_word f z)
  show ?thesis
    using f u e by simp
qed

theorem co2_scaled_int_part_witness:
  "0 \<le> sint (val2 \<lparr>val1 = 450 :: int32_t, val2 = 999999 :: int32_t\<rparr>)
   \<and> sint (val2 \<lparr>val1 = 450 :: int32_t, val2 = 999999 :: int32_t\<rparr>) < 1000000
   \<and> 0 \<le> sint (val1 \<lparr>val1 = 450 :: int32_t, val2 = 999999 :: int32_t\<rparr>)
   \<and> sint (val1 \<lparr>val1 = 450 :: int32_t, val2 = 999999 :: int32_t\<rparr>) < 65536
   \<and> uint (co2_scaled \<lparr>val1 = 450, val2 = 999999\<rparr>) = 450"
  using co2_scaled_int_part [of "\<lparr>val1 = 450, val2 = 999999\<rparr>"]
  by simp

section \<open>Claims about the poll cycle\<close>

text \<open>
  C6. In the combined design, a cycle whose fetch succeeded and whose readings are
  rejected (the integer part of IAQ is 0, or the integer part of CO2 or of VOC is
  negative) leaves the service data buffer as it was, hands nothing to the radio, and
  only logs and schedules the next run.
\<close>

theorem validation_failure_skips:
  assumes "sensor_sample_fetch env = 0"
    and "val1 (sensor_channel_get env SENSOR_CHAN_IAQ) = 0
         \<or> val1 (sensor_channel_get env SENSOR_CHAN_CO2) <s 0
         \<or> val1 (sensor_channel_get env SENSOR_CHAN_VOC) <s 0"
  shows "sensor_work_handler_combined env b
         = (b, [Log_invalid_values, Work_schedule (K_SECONDS 3)])"
  using assms
  by (simp add: sensor_work_handler_combined_def invalid_values_def SENSOR_WORK_DELAY_def)

theorem validation_failure_skips_witness:
  "sensor_sample_fetch iaq_not_ready_env = 0
   \<and> val1 (sensor_channel_get iaq_not_ready_env SENSOR_CHAN_IAQ) = 0
   \<and> sensor_work_handler_combined iaq_not_ready_env service_data_combined_init
       = (service_data_combined_init, [Log_invalid_values, Work_schedule (K_SECONDS 3)])"
  using validation_failure_skips [of iaq_not_ready_env service_data_combined_init]
  by (simp add: iaq_not_ready_env_def example_env_simps)

text \<open>
  The second version of the handler does skip the cycle when the fetch fails.
\<close>

lemma fetch_failure_combined_skips:
  "sensor_sample_fetch env \<noteq> 0 \<Longrightarrow>
   sensor_work_handler_combined env b = (b, [Log_fetch_failed, Work_schedule (K_SECONDS 3)])"
  by (simp add: sensor_work_handler_combined_def SENSOR_WORK_DELAY_def)

lemma byte_of_simps:
  "byte_of k 0 = word_of_int (k AND 0xFF)"
  "byte_of k (Suc 0) = word_of_int (drop_bit 8 k AND 0xFF)"
  "byte_of k 2 = word_of_int (drop_bit 16 k AND 0xFF)"
  by (simp_all add: byte_of_def)

lemma byte_of_examples:
  "byte_of 2250 0 = 0xCA" "byte_of 2250 (Suc 0) = 0x08"
  "byte_of 5500 0 = 0x7C" "byte_of 5500 (Suc 0) = 0x15"
  "byte_of 1001 0 = 0xE9" "byte_of 1001 (Suc 0) = 0x03" "byte_of 1001 2 = 0x00"
  "byte_of 1000 0 = 0xE8" "byte_of 1000 (Suc 0) = 0x03"
  "byte_of 450 0 = 0xC2" "byte_of 450 (Suc 0) = 0x01"
  by (simp_all add: byte_of_simps)

lemma fetch_failed_env_simps:
  "sensor_sample_fetch fetch_failed_env = - 5"
  "sensor_channel_get fetch_failed_env = sensor_channel_get example_env"
  "bt_le_adv_update_data fetch_failed_env = bt_le_adv_update_data example_env"
  by (simp_all add: fetch_failed_env_def)

text \<open>
  C3 says that a cycle whose fetch fails leaves the buffers byte for byte as they were
  and goes to the re-arm without validating, encoding or publishing. The first version
  of the handler does not: with a fetch that returns \<open>-5\<close> and the readings of the
  example, started on the placeholder buffers, it logs, schedules the work item, and then
  stores all fields, hands the three buffers to the radio and schedules the work item
  again.
\<close>

theorem fetch_failure_split_still_publishes:
  "sensor_sample_fetch fetch_failed_env \<noteq> 0
   \<and> service_data_temp_hum payloads_init = [0xD2, 0xFC, 0x40, 0x02, 0x00, 0x00, 0x03, 0x00, 0x00]
   \<and> sensor_work_handler_split fetch_failed_env payloads_init
       = (\<lparr> service_data_temp_hum = [0xD2, 0xFC, 0x40, 0x02, 0xCA, 0x08, 0x03, 0x7C, 0x15],
            service_data_press = [0xD2, 0xFC, 0x40, 0x04, 0xE9, 0x03, 0x00],
            service_data_voc_co2 = [0xD2, 0xFC, 0x40, 0x13, 0xE8, 0x03, 0x12, 0x01, 0xC2] \<rparr>,
          [Log_fetch_failed, Work_schedule (K_SECONDS 3), Log_readings,
           Adv_update Ad_temp_hum [0xD2, 0xFC, 0x40, 0x02, 0xCA, 0x08, 0x03, 0x7C, 0x15],
           Sleep K_MSEC_BT_GAP_ADV_SLOW_INT_MIN,
           Adv_update Ad_press_gas [0xD2, 0xFC, 0x40, 0x04, 0xE9, 0x03, 0x00],
           Sleep K_MSEC_BT_GAP_ADV_SLOW_INT_MIN,
           Adv_update Ad_voc [0xD2, 0xFC, 0x40, 0x13, 0xE8, 0x03, 0x12, 0x01, 0xC2],
           Work_schedule (K_SECONDS 3)])"
  unfolding sensor_work_handler_split_def Let_def update_payloads_eq publish_payloads_def
    adv_update_def fetch_failed_env_simps
  by (simp add: example_env_simps example_formulas byte_of_examples payloads_init_def
      BT_UUID_16_ENCODE_def SERVICE_UUID_def idx_split_defs SENSOR_WORK_DELAY_def)

text \<open>
  C8. Whatever the collaborators answer, the last thing a run of either version of
  \<open>sensor_work_handler\<close> does is to schedule the work item after 3 seconds, and the last
  thing a pass of the loop of \<open>main\<close> does is to sleep 5 minutes; the first \<open>n\<close> passes of
  the loop sleep 5 minutes exactly \<open>n\<close> times, so no answer of a collaborator ends the loop.
\<close>

theorem rearm_on_every_branch:
  "(\<exists>tr. snd (sensor_work_handler_split env s) = tr @ [Work_schedule (K_SECONDS 3)])
   \<and> (\<exists>tr. snd (sensor_work_handler_combined env b) = tr @ [Work_schedule (K_SECONDS 3)])
   \<and> (\<exists>tr. snd (main_loop_body env m) = tr @ [Sleep (K_MINUTES 5)])
   \<and> length (filter (\<lambda>e. e = Sleep (K_MINUTES 5)) (snd (main_loop n envs m))) = n"
proof -
  have a: "\<exists>tr. snd (sensor_work_handler_split env s) = tr @ [Work_schedule (K_SECONDS 3)]"
    by (simp add: sensor_work_handler_split_def Let_def SENSOR_WORK_DELAY_def)
  have b: "\<exists>tr. snd (sensor_work_handler_combined env b) = tr @ [Work_schedule (K_SECONDS 3)]"
  proof (cases "sensor_sample_fetch env \<noteq> 0")
    case True
    then show ?thesis
      by (simp add: sensor_work_handler_combined_def SENSOR_WORK_DELAY_def)
  next
    case False
    show ?thesis
    proof (cases "invalid_values (sensor_channel_get env)")
      case True
      with False show ?thesis
        by (simp add: sensor_work_handler_combined_def SENSOR_WORK_DELAY_def)
    next
      case v: False
      have "snd (sensor_work_handler_combined env b)
            = ([Log_readings] @ adv_update env Ad_combined
                 (update_combined (sensor_channel_get env) b))
              @ [Work_schedule (K_SECONDS 3)]"
        using False v
        by (simp add: sensor_work_handler_combined_def SENSOR_WORK_DELAY_def Let_def)
      then show ?thesis by blast
    qed
  qed
  have body: "\<And>e m. \<exists>tr. snd (main_loop_body e m) = tr @ [Sleep (K_MINUTES 5)]
              \<and> Sleep (K_MINUTES 5) \<notin> set tr"
  proof -
    fix e m
    have "snd (main_loop_body e m)
          = ([Log_readings] @ adv_update e Ad_temp_hum
               (main_service_data_temp_hum (fst (main_loop_body e m)))
             @ [Sleep K_MSEC_BT_GAP_ADV_SLOW_INT_MIN]
             @ adv_update e Ad_press_gas
               (main_service_data_press_gas (fst (main_loop_body e m))))
            @ [Sleep (K_MINUTES 5)]"
      by (simp add: main_loop_body_def Let_def)
    moreover have "Sleep (K_MINUTES 5) \<notin> set ([Log_readings] @ adv_update e Ad_temp_hum
               (main_service_data_temp_hum (fst (main_loop_body e m)))
             @ [Sleep K_MSEC_BT_GAP_ADV_SLOW_INT_MIN]
             @ adv_update e Ad_press_gas
               (main_service_data_press_gas (fst (main_loop_body e m))))"
      by (simp add: adv_update_def)
    ultimately show "\<exists>tr. snd (main_loop_body e m) = tr @ [Sleep (K_MINUTES 5)]
              \<and> Sleep (K_MINUTES 5) \<notin> set tr" by blast
  qed
  have c: "\<exists>tr. snd (main_loop_body env m) = tr @ [Sleep (K_MINUTES 5)]"
    using body [of env m] by blast
  have d: "length (filter (\<lambda>e. e = Sleep (K_MINUTES 5)) (snd (main_loop n envs m))) = n"
  proof (induction n arbitrary: envs m)
    case 0
    show ?case by simp
  next
    case (Suc n)
    obtain tr where tr: "snd (main_loop_body (envs 0) m) = tr @ [Sleep (K_MINUTES 5)]"
      "Sleep (K_MINUTES 5) \<notin> set tr"
      using body [of "envs 0" m] by blast
    have nil: "filter (\<lambda>e. e = Sleep (K_MINUTES 5)) tr = []"
      using tr(2) by (auto simp: filter_empty_conv)
    show ?case
      using Suc.IH [of "\<lambda>k. envs (Suc k)" "fst (main_loop_body (envs 0) m)"] tr(1) nil
      by (simp add: split_def Let_def)
  qed
  from a b c d show ?thesis by blast
qed

lemma iaq_100_env_simps:
  "sensor_sample_fetch iaq_100_env = 0"
  "sensor_channel_get iaq_100_env SENSOR_CHAN_AMBIENT_TEMP = sensor_channel_get example_env SENSOR_CHAN_AMBIENT_TEMP"
  "sensor_channel_get iaq_100_env SENSOR_CHAN_PRESS = sensor_channel_get example_env SENSOR_CHAN_PRESS"
  "sensor_channel_get iaq_100_env SENSOR_CHAN_HUMIDITY = sensor_channel_get example_env SENSOR_CHAN_HUMIDITY"
  "sensor_channel_get iaq_100_env SENSOR_CHAN_IAQ = \<lparr>val1 = 100, val2 = 0\<rparr>"
  "sensor_channel_get iaq_100_env SENSOR_CHAN_CO2 = sensor_channel_get example_env SENSOR_CHAN_CO2"
  "sensor_channel_get iaq_100_env SENSOR_CHAN_VOC = sensor_channel_get example_env SENSOR_CHAN_VOC"
  "bt_le_adv_update_data iaq_100_env = bt_le_adv_update_data example_env"
  by (simp_all add: iaq_100_env_def example_env_simps)

lemma iaq_100_env_valid: "\<not> invalid_values (sensor_channel_get iaq_100_env)"
  by (simp add: invalid_values_def iaq_100_env_simps example_env_simps word_sless_alt)

lemma combined_valid_run:
  "sensor_sample_fetch env = 0 \<Longrightarrow> \<not> invalid_values (sensor_channel_get env) \<Longrightarrow>
   sensor_work_handler_combined env b =
     (update_combined (sensor_channel_get env) b,
      [Log_readings] @ adv_update env Ad_combined (update_combined (sensor_channel_get env) b)
      @ [Work_schedule SENSOR_WORK_DELAY])"
  by (simp add: sensor_work_handler_combined_def Let_def)

text \<open>
  C7, as stated, fails for the IAQ channel: two validated cycles on the same buffer whose
  readings differ only in IAQ (50 and 100) store and publish the same bytes.
\<close>

theorem iaq_not_encoded_counterexample:
  "sensor_sample_fetch example_env = 0 \<and> \<not> invalid_values (sensor_channel_get example_env)
   \<and> sensor_sample_fetch iaq_100_env = 0 \<and> \<not> invalid_values (sensor_channel_get iaq_100_env)
   \<and> val1 (sensor_channel_get example_env SENSOR_CHAN_IAQ) = 50
   \<and> val1 (sensor_channel_get iaq_100_env SENSOR_CHAN_IAQ) = 100
   \<and> sensor_work_handler_combined iaq_100_env service_data_combined_init
       = sensor_work_handler_combined example_env service_data_combined_init"
  by (simp add: combined_valid_run example_env_valid iaq_100_env_valid example_env_simps
      iaq_100_env_simps update_combined_eq adv_update_def)



lemma update_combined_cong:
  assumes "\<forall>c. c \<noteq> SENSOR_CHAN_IAQ \<longrightarrow> g' c = g c"
  shows "update_combined g' b = update_combined g b"
proof -
  have "g' SENSOR_CHAN_AMBIENT_TEMP = g SENSOR_CHAN_AMBIENT_TEMP"
    "g' SENSOR_CHAN_PRESS = g SENSOR_CHAN_PRESS"
    "g' SENSOR_CHAN_HUMIDITY = g SENSOR_CHAN_HUMIDITY"
    "g' SENSOR_CHAN_CO2 = g SENSOR_CHAN_CO2"
    "g' SENSOR_CHAN_VOC = g SENSOR_CHAN_VOC"
    using assms by simp_all
  thus ?thesis by (simp only: update_combined_def)
qed

lemma update_combined_bytes:
  assumes "length b = 19"
  shows "bytes16_at (update_combined get b) IDX_TEMP_L IDX_TEMP_H
           (centi_formula (get SENSOR_CHAN_AMBIENT_TEMP))"
    and "bytes16_at (update_combined get b) IDX_HUMID_L IDX_HUMID_H
           (centi_formula (get SENSOR_CHAN_HUMIDITY))"
    and "bytes24_at (update_combined get b) IDX_PRESS_L IDX_PRESS_M IDX_PRESS_H
           (pressure_formula (get SENSOR_CHAN_PRESS))"
    and "bytes16_at (update_combined get b) IDX_VOC_L IDX_VOC_H
           (centi_formula (get SENSOR_CHAN_VOC))"
    and "bytes16_at (update_combined get b) IDX_CO2_L IDX_CO2_H
           (co2_formula (get SENSOR_CHAN_CO2))"
  using assms
  by (simp_all add: update_combined_eq bytes16_at_def bytes24_at_def uint_byte_of
      idx_combined_defs)

lemma update_combined_frame:
  "untouched_outside
     {IDX_TEMP_L, IDX_TEMP_H, IDX_HUMID_L, IDX_HUMID_H, IDX_PRESS_L, IDX_PRESS_M,
      IDX_PRESS_H, IDX_VOC_L, IDX_VOC_H, IDX_CO2_L, IDX_CO2_H} b (update_combined get b)"
  by (simp add: update_combined_eq untouched_outside_def idx_combined_defs)

text \<open>
  C7, amended. In every cycle of the combined design whose fetch succeeded and whose
  readings passed the check, the encoding stage writes five channels into the buffer
  that is handed to the radio: temperature, humidity, pressure, VOC and CO2 each
  determine the bytes of their field, and all other bytes stay. The IAQ reading is used
  by the check only: every validated cycle with the same five readings stores the same
  bytes, whatever its IAQ.
\<close>

theorem encoding_writes_five_channels:
  assumes "sensor_sample_fetch env = 0" and "\<not> invalid_values (sensor_channel_get env)"
    and "length b = 19"
  shows
    "(let get = sensor_channel_get env;
          b' = fst (sensor_work_handler_combined env b)
      in bytes16_at b' IDX_TEMP_L IDX_TEMP_H (centi_formula (get SENSOR_CHAN_AMBIENT_TEMP))
       \<and> bytes16_at b' IDX_HUMID_L IDX_HUMID_H (centi_formula (get SENSOR_CHAN_HUMIDITY))
       \<and> bytes24_at b' IDX_PRESS_L IDX_PRESS_M IDX_PRESS_H (pressure_formula (get SENSOR_CHAN_PRESS))
       \<and> bytes16_at b' IDX_VOC_L IDX_VOC_H (centi_formula (get SENSOR_CHAN_VOC))
       \<and> bytes16_at b' IDX_CO2_L IDX_CO2_H (co2_formula (get SENSOR_CHAN_CO2))
       \<and> untouched_outside
            {IDX_TEMP_L, IDX_TEMP_H, IDX_HUMID_L, IDX_HUMID_H, IDX_PRESS_L, IDX_PRESS_M,
             IDX_PRESS_H, IDX_VOC_L, IDX_VOC_H, IDX_CO2_L, IDX_CO2_H} b b'
       \<and> Adv_update Ad_combined b' \<in> set (snd (sensor_work_handler_combined env b))
       \<and> (\<forall>env'. sensor_sample_fetch env' = 0 \<and> \<not> invalid_values (sensor_channel_get env')
              \<and> (\<forall>c. c \<noteq> SENSOR_CHAN_IAQ \<longrightarrow> sensor_channel_get env' c = get c)
            \<longrightarrow> fst (sensor_work_handler_combined env' b) = b'))"
proof -
  have st: "fst (sensor_work_handler_combined env b) = update_combined (sensor_channel_get env) b"
    using assms(1,2) by (rule combined_state)
  have adv: "Adv_update Ad_combined (update_combined (sensor_channel_get env) b)
             \<in> set (snd (sensor_work_handler_combined env b))"
    using assms(1,2) by (simp add: combined_valid_run adv_update_def)
  have indep: "\<forall>env'. sensor_sample_fetch env' = 0 \<and> \<not> invalid_values (sensor_channel_get env')
              \<and> (\<forall>c. c \<noteq> SENSOR_CHAN_IAQ \<longrightarrow> sensor_channel_get env' c = sensor_channel_get env c)
            \<longrightarrow> fst (sensor_work_handler_combined env' b)
                = update_combined (sensor_channel_get env) b"
  proof (intro allI impI, elim conjE)
    fix env' :: cycle_env
    assume ok: "sensor_sample_fetch env' = 0" "\<not> invalid_values (sensor_channel_get env')"
      and same: "\<forall>c. c \<noteq> SENSOR_CHAN_IAQ \<longrightarrow> sensor_channel_get env' c = sensor_channel_get env c"
    have "fst (sensor_work_handler_combined env' b) = update_combined (sensor_channel_get env') b"
      using ok by (rule combined_state)
    also have "\<dots> = update_combined (sensor_channel_get env) b"
      using same by (rule update_combined_cong)
    finally show "fst (sensor_work_handler_combined env' b)
                = update_combined (sensor_channel_get env) b" .
  qed
  show ?thesis
    unfolding Let_def st
    using update_combined_bytes [OF assms(3), of "sensor_channel_get env"]
      update_combined_frame [of b "sensor_channel_get env"] adv indep
    by (intro conjI) assumption+
qed


theorem encoding_writes_five_channels_witness:
  "sensor_sample_fetch example_env = 0 \<and> \<not> invalid_values (sensor_channel_get example_env)
   \<and> length service_data_combined_init = 19
   \<and> sensor_sample_fetch iaq_100_env = 0 \<and> \<not> invalid_values (sensor_channel_get iaq_100_env)
   \<and> sensor_channel_get iaq_100_env SENSOR_CHAN_AMBIENT_TEMP
       = sensor_channel_get example_env SENSOR_CHAN_AMBIENT_TEMP
   \<and> sensor_channel_get iaq_100_env SENSOR_CHAN_PRESS
       = sensor_channel_get example_env SENSOR_CHAN_PRESS
   \<and> sensor_channel_get iaq_100_env SENSOR_CHAN_HUMIDITY
       = sensor_channel_get example_env SENSOR_CHAN_HUMIDITY
   \<and> sensor_channel_get iaq_100_env SENSOR_CHAN_GAS_RES
       = sensor_channel_get example_env SENSOR_CHAN_GAS_RES
   \<and> sensor_channel_get iaq_100_env SENSOR_CHAN_CO2
       = sensor_channel_get example_env SENSOR_CHAN_CO2
   \<and> sensor_channel_get iaq_100_env SENSOR_CHAN_VOC
       = sensor_channel_get example_env SENSOR_CHAN_VOC
   \<and> bytes16_at (fst (sensor_work_handler_combined example_env service_data_combined_init))
        IDX_CO2_L IDX_CO2_H 450
   \<and> bytes24_at (fst (sensor_work_handler_combined example_env service_data_combined_init))
        IDX_PRESS_L IDX_PRESS_M IDX_PRESS_H 1001
   \<and> fst (sensor_work_handler_combined iaq_100_env service_data_combined_init)
       = fst (sensor_work_handler_combined example_env service_data_combined_init)"
proof -
  have others: "\<forall>c. c \<noteq> SENSOR_CHAN_IAQ \<longrightarrow>
         sensor_channel_get iaq_100_env c = sensor_channel_get example_env c"
    by (simp add: iaq_100_env_def)
  have each:
    "sensor_channel_get iaq_100_env SENSOR_CHAN_AMBIENT_TEMP
       = sensor_channel_get example_env SENSOR_CHAN_AMBIENT_TEMP"
    "sensor_channel_get iaq_100_env SENSOR_CHAN_PRESS
       = sensor_channel_get example_env SENSOR_CHAN_PRESS"
    "sensor_channel_get iaq_100_env SENSOR_CHAN_HUMIDITY
       = sensor_channel_get example_env SENSOR_CHAN_HUMIDITY"
    "sensor_channel_get iaq_100_env SENSOR_CHAN_GAS_RES
       = sensor_channel_get example_env SENSOR_CHAN_GAS_RES"
    "sensor_channel_get iaq_100_env SENSOR_CHAN_CO2
       = sensor_channel_get example_env SENSOR_CHAN_CO2"
    "sensor_channel_get iaq_100_env SENSOR_CHAN_VOC
       = sensor_channel_get example_env SENSOR_CHAN_VOC"
    by (simp_all add: iaq_100_env_def)
  note t = encoding_writes_five_channels [of example_env service_data_combined_init,
        OF example_env_simps(1) example_env_valid init_lengths(4), unfolded Let_def]
  have co2: "bytes16_at (fst (sensor_work_handler_combined example_env service_data_combined_init))
        IDX_CO2_L IDX_CO2_H 450"
    using t by (simp only: example_env_simps example_formulas)
  have press: "bytes24_at (fst (sensor_work_handler_combined example_env service_data_combined_init))
        IDX_PRESS_L IDX_PRESS_M IDX_PRESS_H 1001"
    using t by (simp only: example_env_simps example_formulas)
  have "\<forall>env'. sensor_sample_fetch env' = 0 \<and> \<not> invalid_values (sensor_channel_get env')
              \<and> (\<forall>c. c \<noteq> SENSOR_CHAN_IAQ \<longrightarrow>
                    sensor_channel_get env' c = sensor_channel_get example_env c)
            \<longrightarrow> fst (sensor_work_handler_combined env' service_data_combined_init)
                = fst (sensor_work_handler_combined example_env service_data_combined_init)"
    using t by blast
  hence same: "fst (sensor_work_handler_combined iaq_100_env service_data_combined_init)
       = fst (sensor_work_handler_combined example_env service_data_combined_init)"
    using iaq_100_env_simps(1) iaq_100_env_valid others by blast
  show ?thesis
    using example_env_simps(1) example_env_valid init_lengths(4) iaq_100_env_simps(1)
      iaq_100_env_valid each co2 press same
    by (intro conjI) assumption+
qed

lemma untouched_outside_refl: "untouched_outside I xs xs"
  by (simp add: untouched_outside_def)

lemma untouched_outside_trans:
  "untouched_outside I xs ys \<Longrightarrow> untouched_outside I ys zs \<Longrightarrow> untouched_outside I xs zs"
  by (simp add: untouched_outside_def)

lemma update_payloads_frame:
  "untouched_outside {IDX_TEMPL, IDX_TEMPH, IDX_HUMIDL, IDX_HUMIDH}
     (service_data_temp_hum s) (service_data_temp_hum (update_payloads get s))"
  "untouched_outside {IDX_PRESS_LOW, IDX_PRESS_MID, IDX_PRESS_HIGH}
     (service_data_press s) (service_data_press (update_payloads get s))"
  "untouched_outside {IDX_VOC_LOW, IDX_VOC_HIGH, IDX_CO2_LOW, IDX_CO2_HIGH}
     (service_data_voc_co2 s) (service_data_voc_co2 (update_payloads get s))"
  by (simp_all add: update_payloads_eq untouched_outside_def idx_split_defs)

lemma combined_frame:
  "untouched_outside
     {IDX_TEMP_L, IDX_TEMP_H, IDX_HUMID_L, IDX_HUMID_H, IDX_PRESS_L, IDX_PRESS_M,
      IDX_PRESS_H, IDX_VOC_L, IDX_VOC_H, IDX_CO2_L, IDX_CO2_H}
     b (fst (sensor_work_handler_combined env b))"
  by (simp add: sensor_work_handler_combined_def Let_def update_combined_frame
      untouched_outside_refl)

lemma run_split_frame:
  "untouched_outside {IDX_TEMPL, IDX_TEMPH, IDX_HUMIDL, IDX_HUMIDH}
     (service_data_temp_hum s) (service_data_temp_hum (run_split envs s))
   \<and> untouched_outside {IDX_PRESS_LOW, IDX_PRESS_MID, IDX_PRESS_HIGH}
     (service_data_press s) (service_data_press (run_split envs s))
   \<and> untouched_outside {IDX_VOC_LOW, IDX_VOC_HIGH, IDX_CO2_LOW, IDX_CO2_HIGH}
     (service_data_voc_co2 s) (service_data_voc_co2 (run_split envs s))"
proof (induction envs arbitrary: s)
  case Nil
  show ?case by (simp add: untouched_outside_refl)
next
  case (Cons env envs)
  show ?case
    using Cons.IH [of "update_payloads (sensor_channel_get env) s"]
      update_payloads_frame [of s "sensor_channel_get env"]
    by (auto simp: split_state intro: untouched_outside_trans)
qed

lemma run_combined_frame:
  "untouched_outside
     {IDX_TEMP_L, IDX_TEMP_H, IDX_HUMID_L, IDX_HUMID_H, IDX_PRESS_L, IDX_PRESS_M,
      IDX_PRESS_H, IDX_VOC_L, IDX_VOC_H, IDX_CO2_L, IDX_CO2_H}
     b (run_combined envs b)"
proof (induction envs arbitrary: b)
  case Nil
  show ?case by (simp add: untouched_outside_refl)
next
  case (Cons env envs)
  show ?case
    using Cons.IH [of "fst (sensor_work_handler_combined env b)"] combined_frame [of b env]
    by (auto intro: untouched_outside_trans)
qed


lemma init_bytes:
  "service_data_temp_hum payloads_init = [0xD2, 0xFC, 0x40, 0x02, 0x00, 0x00, 0x03, 0x00, 0x00]"
  "service_data_press payloads_init = [0xD2, 0xFC, 0x40, 0x04, 0x00, 0x00, 0x00]"
  "service_data_voc_co2 payloads_init = [0xD2, 0xFC, 0x40, 0x13, 0x00, 0x00, 0x12, 0x00, 0x00]"
  "service_data_combined_init =
     [0xD2, 0xFC, 0x40, 0x02, 0x00, 0x00, 0x03, 0x00, 0x00, 0x04, 0x00, 0x00, 0x00,
      0x13, 0x00, 0x00, 0x12, 0x00, 0x00]"
  by (simp_all add: payloads_init_def service_data_combined_init_def BT_UUID_16_ENCODE_def
      SERVICE_UUID_def)

lemma untouched_outside_nth:
  "untouched_outside I xs ys \<Longrightarrow> i < length xs \<Longrightarrow> i \<notin> I \<Longrightarrow> ys ! i = xs ! i"
  by (simp add: untouched_outside_def)

lemma untouched_outside_length: "untouched_outside I xs ys \<Longrightarrow> length ys = length xs"
  by (simp add: untouched_outside_def)

text \<open>
  C5. Any number of runs of either version of the handler, whatever the collaborators
  answer, leaves the length of every service data buffer as it was and changes no
  byte outside the value bytes of the fields. Started on the static initialisers, the
  buffers therefore always have 9, 7, 9 and 19 bytes, begin with the service identifier
  \<open>D2 FC\<close> and the format byte \<open>0x40\<close>, and carry their tag bytes at the same places.
\<close>

theorem layout_preserved:
  "untouched_outside {IDX_TEMPL, IDX_TEMPH, IDX_HUMIDL, IDX_HUMIDH}
     (service_data_temp_hum s) (service_data_temp_hum (run_split envs s))
   \<and> untouched_outside {IDX_PRESS_LOW, IDX_PRESS_MID, IDX_PRESS_HIGH}
     (service_data_press s) (service_data_press (run_split envs s))
   \<and> untouched_outside {IDX_VOC_LOW, IDX_VOC_HIGH, IDX_CO2_LOW, IDX_CO2_HIGH}
     (service_data_voc_co2 s) (service_data_voc_co2 (run_split envs s))
   \<and> untouched_outside
     {IDX_TEMP_L, IDX_TEMP_H, IDX_HUMID_L, IDX_HUMID_H, IDX_PRESS_L, IDX_PRESS_M,
      IDX_PRESS_H, IDX_VOC_L, IDX_VOC_H, IDX_CO2_L, IDX_CO2_H}
     b (run_combined envs b)
   \<and> (let th = service_data_temp_hum (run_split envs payloads_init);
           pr = service_data_press (run_split envs payloads_init);
           vc = service_data_voc_co2 (run_split envs payloads_init);
           cb = run_combined envs service_data_combined_init
       in length th = 9 \<and> th ! 0 = 0xD2 \<and> th ! 1 = 0xFC \<and> th ! 2 = 0x40
          \<and> th ! 3 = 0x02 \<and> th ! 6 = 0x03
        \<and> length pr = 7 \<and> pr ! 0 = 0xD2 \<and> pr ! 1 = 0xFC \<and> pr ! 2 = 0x40 \<and> pr ! 3 = 0x04
        \<and> length vc = 9 \<and> vc ! 0 = 0xD2 \<and> vc ! 1 = 0xFC \<and> vc ! 2 = 0x40
          \<and> vc ! 3 = 0x13 \<and> vc ! 6 = 0x12
        \<and> length cb = 19 \<and> cb ! 0 = 0xD2 \<and> cb ! 1 = 0xFC \<and> cb ! 2 = 0x40
          \<and> cb ! 3 = 0x02 \<and> cb ! 6 = 0x03 \<and> cb ! 9 = 0x04 \<and> cb ! 13 = 0x13
          \<and> cb ! 16 = 0x12)"
proof -
  note f = run_split_frame [of payloads_init envs]
  note th = f [THEN conjunct1]
  note pr = f [THEN conjunct2, THEN conjunct1]
  note vc = f [THEN conjunct2, THEN conjunct2]
  note cb = run_combined_frame [of service_data_combined_init envs]
  have a: "length (service_data_temp_hum (run_split envs payloads_init)) = 9"
    "service_data_temp_hum (run_split envs payloads_init) ! 0 = 0xD2"
    "service_data_temp_hum (run_split envs payloads_init) ! 1 = 0xFC"
    "service_data_temp_hum (run_split envs payloads_init) ! 2 = 0x40"
    "service_data_temp_hum (run_split envs payloads_init) ! 3 = 0x02"
    "service_data_temp_hum (run_split envs payloads_init) ! 6 = 0x03"
    using untouched_outside_length [OF th] untouched_outside_nth [OF th]
    by (simp_all add: init_bytes idx_split_defs)
  have b: "length (service_data_press (run_split envs payloads_init)) = 7"
    "service_data_press (run_split envs payloads_init) ! 0 = 0xD2"
    "service_data_press (run_split envs payloads_init) ! 1 = 0xFC"
    "service_data_press (run_split envs payloads_init) ! 2 = 0x40"
    "service_data_press (run_split envs payloads_init) ! 3 = 0x04"
    using untouched_outside_length [OF pr] untouched_outside_nth [OF pr]
    by (simp_all add: init_bytes idx_split_defs)
  have c: "length (service_data_voc_co2 (run_split envs payloads_init)) = 9"
    "service_data_voc_co2 (run_split envs payloads_init) ! 0 = 0xD2"
    "service_data_voc_co2 (run_split envs payloads_init) ! 1 = 0xFC"
    "service_data_voc_co2 (run_split envs payloads_init) ! 2 = 0x40"
    "service_data_voc_co2 (run_split envs payloads_init) ! 3 = 0x13"
    "service_data_voc_co2 (run_split envs payloads_init) ! 6 = 0x12"
    using untouched_outside_length [OF vc] untouched_outside_nth [OF vc]
    by (simp_all add: init_bytes idx_split_defs)
  have d: "length (run_combined envs service_data_combined_init) = 19"
    "run_combined envs service_data_combined_init ! 0 = 0xD2"
    "run_combined envs service_data_combined_init ! 1 = 0xFC"
    "run_combined envs service_data_combined_init ! 2 = 0x40"
    "run_combined envs service_data_combined_init ! 3 = 0x02"
    "run_combined envs service_data_combined_init ! 6 = 0x03"
    "run_combined envs service_data_combined_init ! 9 = 0x04"
    "run_combined envs service_data_combined_init ! 13 = 0x13"
    "run_combined envs service_data_combined_init ! 16 = 0x12"
    using untouched_outside_length [OF cb] untouched_outside_nth [OF cb]
    by (simp_all add: init_bytes idx_combined_defs)
  show ?thesis
    unfolding Let_def
    using run_split_frame [of s envs] run_combined_frame [of b envs] a b c d
    by (intro conjI) (assumption | (elim conjE, assumption))+
qed

theorem layout_preserved_witness:
  "(3::nat) \<in> {0..<length (service_data_temp_hum payloads_init)}
            - {IDX_TEMPL, IDX_TEMPH, IDX_HUMIDL, IDX_HUMIDH}
   \<and> service_data_temp_hum (run_split [example_env, fetch_failed_env] payloads_init) ! 3
       = service_data_temp_hum payloads_init ! 3
   \<and> length (service_data_temp_hum (run_split [example_env, fetch_failed_env] payloads_init))
       = length (service_data_temp_hum payloads_init)
   \<and> (2::nat) \<in> {0..<length service_data_combined_init}
            - {IDX_TEMP_L, IDX_TEMP_H, IDX_HUMID_L, IDX_HUMID_H, IDX_PRESS_L, IDX_PRESS_M,
               IDX_PRESS_H, IDX_VOC_L, IDX_VOC_H, IDX_CO2_L, IDX_CO2_H}
   \<and> run_combined [example_env, iaq_not_ready_env] service_data_combined_init ! 2 = 0x40"
proof -
  note t = layout_preserved [of payloads_init "[example_env, fetch_failed_env]"
      service_data_combined_init]
  note u = layout_preserved [of payloads_init "[example_env, iaq_not_ready_env]"
      service_data_combined_init, unfolded Let_def]
  have i3: "(3::nat) \<in> {0..<length (service_data_temp_hum payloads_init)}
            - {IDX_TEMPL, IDX_TEMPH, IDX_HUMIDL, IDX_HUMIDH}"
    by (simp add: init_lengths idx_split_defs)
  have i2: "(2::nat) \<in> {0..<length service_data_combined_init}
            - {IDX_TEMP_L, IDX_TEMP_H, IDX_HUMID_L, IDX_HUMID_H, IDX_PRESS_L, IDX_PRESS_M,
               IDX_PRESS_H, IDX_VOC_L, IDX_VOC_H, IDX_CO2_L, IDX_CO2_H}"
    by (simp add: init_lengths idx_combined_defs)
  have th: "untouched_outside {IDX_TEMPL, IDX_TEMPH, IDX_HUMIDL, IDX_HUMIDH}
     (service_data_temp_hum payloads_init)
     (service_data_temp_hum (run_split [example_env, fetch_failed_env] payloads_init))"
    using t by (elim conjE)
  have n3: "service_data_temp_hum (run_split [example_env, fetch_failed_env] payloads_init) ! 3
       = service_data_temp_hum payloads_init ! 3"
    using th i3 unfolding untouched_outside_def by blast
  have len: "length (service_data_temp_hum (run_split [example_env, fetch_failed_env] payloads_init))
       = length (service_data_temp_hum payloads_init)"
    using th unfolding untouched_outside_def by blast
  have c2: "run_combined [example_env, iaq_not_ready_env] service_data_combined_init ! 2 = 0x40"
    using u by (elim conjE)
  show ?thesis using i3 n3 len i2 c2 by (intro conjI) assumption+
qed

section \<open>Claims about the time exchange callbacks\<close>

lemma c_mod_7: "c_mod 8 7 = 1" "c_mod 7 7 = 0"
  by (simp_all add: c_mod_def signed_modulo_int_def)

lemma wday_remap:
  assumes "0 \<le> sint w" and "sint w \<le> 6"
  shows "c_mod (w + 7) 7 + 1 = w + 1"
proof -
  have "sint (w + 7) = signed_take_bit 31 (sint w + 7)"
    by (simp add: sint_word_ariths)
  also have "\<dots> = sint w + 7"
    using assms by (simp add: signed_take_bit_int_eq_self)
  finally have s: "sint (w + 7) = sint w + 7" .
  have "(sint w + 7) smod 7 = sint w"
    using assms by (simp add: signed_modulo_int_def)
  hence "c_mod (w + 7) 7 = w"
    by (simp add: c_mod_def s)
  thus ?thesis by simp
qed

lemma ucast_32_8_of_int: "(ucast (word_of_int k :: 32 word) :: 8 word) = word_of_int k"
  by (rule bit_word_eqI) (auto simp: bit_simps)

lemma cts_time_read_wday:
  assumes "rtc_get_time rtc = (tm, ret)" and "\<not> ret <s 0"
    and "0 \<le> sint (tm_wday tm)" and "sint (tm_wday tm) \<le> 6"
  shows "uint (wday (fst (cts_time_read rtc_get_time rtc t0))) = sint (tm_wday tm) + 1"
proof -
  have "wday (fst (cts_time_read rtc_get_time rtc t0)) = ucast (tm_wday tm + 1)"
    using assms by (simp add: cts_time_read_def wday_remap)
  moreover have "tm_wday tm + 1 = word_of_int (sint (tm_wday tm) + 1)"
    by simp
  ultimately have "wday (fst (cts_time_read rtc_get_time rtc t0))
        = word_of_int (sint (tm_wday tm) + 1)"
    by (simp only: ucast_32_8_of_int)
  hence "uint (wday (fst (cts_time_read rtc_get_time rtc t0)))
        = take_bit 8 (sint (tm_wday tm) + 1)"
    by (simp only: uint_word_of_int_eq) simp
  also have "\<dots> = sint (tm_wday tm) + 1"
    using assms(3,4) by (simp add: take_bit_int_eq_self)
  finally show ?thesis .
qed

text \<open>
  C9 says that a successful read returns a day of the week from 1 to 7 with Monday = 1
  and Sunday = 7, remapped from the clock's weekday (Sunday = 0). The value stored is the
  weekday of the clock plus one (lemma \<open>cts_time_read_wday\<close>), so it lies between 1 and
  7, but it is 2 on a Monday and 1 on a Sunday; the comment in the source says
  1 = Monday, 7 = Sunday.
\<close>

theorem cts_time_read_monday_is_2:
  "tm_wday (fst (example_rtc_get_time (cts_time_write_tm example_cts_time))) = 1
   \<and> snd (cts_time_read example_rtc_get_time (cts_time_write_tm example_cts_time) example_cts_time) = 0
   \<and> wday (fst (cts_time_read example_rtc_get_time (cts_time_write_tm example_cts_time)
         example_cts_time)) = 2
   \<and> tm_wday (fst (sunday_rtc_get_time (cts_time_write_tm example_cts_time))) = 0
   \<and> wday (fst (cts_time_read sunday_rtc_get_time (cts_time_write_tm example_cts_time)
         example_cts_time)) = 1"
  by (simp add: cts_time_read_def example_rtc_get_time_def sunday_rtc_get_time_def c_mod_7
      word_sless_alt)

lemma ucast16_round: "(ucast (ucast (y :: 16 word) :: 32 word) :: 16 word) = y"
  by (rule bit_word_eqI) (auto simp: bit_simps)

lemma ucast8_round: "(ucast (ucast (y :: 8 word) :: 32 word) :: 8 word) = y"
  by (rule bit_word_eqI) (auto simp: bit_simps)

text \<open>
  C10. Let the clock driver keep what it is given: whenever \<open>rtc_set_time\<close> returns 0,
  the next \<open>rtc_get_time\<close> delivers the year, month, day, hour, minute and second it was
  handed. If \<open>cts_time_write\<close> of a wire time \<open>t\<close> returns 0 and leaves the clock in the
  state \<open>rtc'\<close>, and \<open>rtc_get_time\<close> succeeds there, then \<open>cts_time_read\<close> on \<open>rtc'\<close>
  returns 0 and a wire time with the year, month, day of month, hours, minutes and
  seconds of \<open>t\<close>: the offsets that the write subtracts are the ones the read adds.
  This holds for every \<open>t\<close>, whatever its fields.
\<close>

theorem cts_time_round_trip:
  assumes stores: "\<And>r tm r'. rtc_set_time r tm = (r', 0) \<Longrightarrow>
        tm_year (fst (rtc_get_time r')) = tm_year tm
        \<and> tm_mon (fst (rtc_get_time r')) = tm_mon tm
        \<and> tm_mday (fst (rtc_get_time r')) = tm_mday tm
        \<and> tm_hour (fst (rtc_get_time r')) = tm_hour tm
        \<and> tm_min (fst (rtc_get_time r')) = tm_min tm
        \<and> tm_sec (fst (rtc_get_time r')) = tm_sec tm"
    and written: "cts_time_write rtc_set_time rtc t = (rtc', 0)"
    and read_ok: "\<not> snd (rtc_get_time rtc') <s 0"
  shows "(let (t', r) = cts_time_read rtc_get_time rtc' t0
          in r = 0 \<and> year t' = year t \<and> mon t' = mon t \<and> mday t' = mday t
             \<and> hours t' = hours t \<and> cts_min t' = cts_min t \<and> sec t' = sec t)"
proof -
  have set: "rtc_set_time rtc (cts_time_write_tm t) = (rtc', 0)"
    using written by (simp only: cts_time_write_def)
  obtain tm ret where get: "rtc_get_time rtc' = (tm, ret)"
    by (cases "rtc_get_time rtc'")
  have ok: "\<not> ret <s 0"
    using read_ok get by simp
  have fields: "tm_year tm = tm_year (cts_time_write_tm t)"
    "tm_mon tm = tm_mon (cts_time_write_tm t)"
    "tm_mday tm = tm_mday (cts_time_write_tm t)"
    "tm_hour tm = tm_hour (cts_time_write_tm t)"
    "tm_min tm = tm_min (cts_time_write_tm t)"
    "tm_sec tm = tm_sec (cts_time_write_tm t)"
    using stores [OF set] get by simp_all
  show ?thesis
    using get ok fields
    by (simp add: cts_time_read_def cts_time_write_tm_def ucast16_round ucast8_round)
qed

theorem cts_time_round_trip_witness:
  "cts_time_write example_rtc_set_time example_rtc_before example_cts_time
     = (\<lparr> tm_sec = 56, tm_min = 34, tm_hour = 12, tm_mday = 3, tm_mon = 10, tm_year = 125,
          tm_wday = 0, tm_yday = 0, tm_isdst = 0, tm_nsec = 0 \<rparr>, 0)
   \<and> \<not> snd (example_rtc_get_time
              \<lparr> tm_sec = 56, tm_min = 34, tm_hour = 12, tm_mday = 3, tm_mon = 10,
                tm_year = 125, tm_wday = 0, tm_yday = 0, tm_isdst = 0, tm_nsec = 0 \<rparr>) <s 0
   \<and> (let (t', r) = cts_time_read example_rtc_get_time
                      \<lparr> tm_sec = 56, tm_min = 34, tm_hour = 12, tm_mday = 3, tm_mon = 10,
                        tm_year = 125, tm_wday = 0, tm_yday = 0, tm_isdst = 0, tm_nsec = 0 \<rparr>
                      \<lparr> year = 0, mon = 0, mday = 0, hours = 0, cts_min = 0, sec = 0, wday = 0,
                        fractions256 = 0, reason = 0 \<rparr>
       in r = 0 \<and> year t' = 2025 \<and> mon t' = 11 \<and> mday t' = 3
          \<and> hours t' = 12 \<and> cts_min t' = 34 \<and> sec t' = 56)"
proof -
  let ?rtc' = "\<lparr> tm_sec = 56, tm_min = 34, tm_hour = 12, tm_mday = 3, tm_mon = 10,
                tm_year = 125, tm_wday = 0, tm_yday = 0, tm_isdst = 0, tm_nsec = 0 \<rparr> :: rtc_time"
  have law: "\<And>r tm r'. example_rtc_set_time r tm = (r', 0) \<Longrightarrow>
        tm_year (fst (example_rtc_get_time r')) = tm_year tm
        \<and> tm_mon (fst (example_rtc_get_time r')) = tm_mon tm
        \<and> tm_mday (fst (example_rtc_get_time r')) = tm_mday tm
        \<and> tm_hour (fst (example_rtc_get_time r')) = tm_hour tm
        \<and> tm_min (fst (example_rtc_get_time r')) = tm_min tm
        \<and> tm_sec (fst (example_rtc_get_time r')) = tm_sec tm"
    by (auto simp: example_rtc_set_time_def example_rtc_get_time_def)
  have w: "cts_time_write example_rtc_set_time example_rtc_before example_cts_time = (?rtc', 0)"
    by (simp add: cts_time_write_def cts_time_write_tm_def example_rtc_set_time_def
        example_cts_time_def)
  have n: "\<not> snd (example_rtc_get_time ?rtc') <s 0"
    by (simp add: example_rtc_get_time_def)
  have r: "(let (t', r) = cts_time_read example_rtc_get_time ?rtc'
                      \<lparr> year = 0, mon = 0, mday = 0, hours = 0, cts_min = 0, sec = 0, wday = 0,
                        fractions256 = 0, reason = 0 \<rparr>
       in r = 0 \<and> year t' = year example_cts_time \<and> mon t' = mon example_cts_time
          \<and> mday t' = mday example_cts_time \<and> hours t' = hours example_cts_time
          \<and> cts_min t' = cts_min example_cts_time \<and> sec t' = sec example_cts_time)"
    using law w n
    by (rule cts_time_round_trip [where rtc_set_time = example_rtc_set_time
        and rtc_get_time = example_rtc_get_time and rtc = example_rtc_before
        and t = example_cts_time])
  show ?thesis
    using w n r by (simp add: example_cts_time_def)
qed

end
